theory Spec2Isabelle
  imports Complex_Main
begin

section \<open>StockHub backend: token store, credential refresh, upstream socket and fan-out\<close>

text \<open>
  The development follows \<^verbatim>\<open>src/token_store.js\<close> and \<^verbatim>\<open>src/server.js\<close>.
  The server is a single-threaded event loop: every callback runs to its end or to its next
  \<^verbatim>\<open>await\<close>. A callback is a function from server state to server state; an
  \<^verbatim>\<open>async\<close> function is cut at its \<^verbatim>\<open>await\<close>s, the suspended rest being a
  \<open>task\<close> kept in the state until the event that settles it arrives. What the platform
  decides (whether a text parses, whether the socket constructor accepts a URL, whether
  \<^verbatim>\<open>encodeURIComponent\<close> accepts a value, how a promise settles) is a parameter of the
  function that meets it.
\<close>

subsection \<open>JavaScript values\<close>

text \<open>
  What \<^verbatim>\<open>JSON.parse\<close> can return, and \<^verbatim>\<open>undefined\<close> for a missing property.
  A text handed to \<^verbatim>\<open>send\<close> is recorded as the value given to
  \<^verbatim>\<open>JSON.stringify\<close>; an object is the list of its own properties.
\<close>

datatype jsval =
    JUndefined
  | JNull
  | JBool bool
  | JNum rat
  | JStr string
  | JArr "jsval list"
  | JObj "(string \<times> jsval) list"

text \<open>Truthiness, as \<^verbatim>\<open>if (v)\<close>, \<^verbatim>\<open>!v\<close> and \<^verbatim>\<open>v || d\<close> test it.\<close>

fun truthy :: "jsval \<Rightarrow> bool" where
  "truthy JUndefined = False"
| "truthy JNull = False"
| "truthy (JBool b) = b"
| "truthy (JNum n) = (n \<noteq> 0)"
| "truthy (JStr s) = (s \<noteq> [])"
| "truthy (JArr _) = True"
| "truthy (JObj _) = True"

text \<open>
  Reading a property \<^verbatim>\<open>v.name\<close> for the names used by the server (\<^verbatim>\<open>action\<close>,
  \<^verbatim>\<open>symbols\<close>, \<^verbatim>\<open>symbol\<close>, none of them a built-in member): \<open>None\<close> is the
  TypeError raised on \<^verbatim>\<open>null\<close> and \<^verbatim>\<open>undefined\<close>.
\<close>

fun get_prop :: "jsval \<Rightarrow> string \<Rightarrow> jsval option" where
  "get_prop JUndefined k = None"
| "get_prop JNull k = None"
| "get_prop (JObj kvs) k = (case map_of kvs k of None \<Rightarrow> Some JUndefined | Some v \<Rightarrow> Some v)"
| "get_prop _ k = Some JUndefined"

fun isArray :: "jsval \<Rightarrow> bool" where
  "isArray (JArr _) = True"
| "isArray _ = False"

fun array_length :: "jsval \<Rightarrow> nat" where
  "array_length (JArr xs) = length xs"
| "array_length _ = 0"

text \<open>A string that may be missing: \<^verbatim>\<open>s || d\<close> and \<^verbatim>\<open>!s\<close> on it.\<close>

fun str_or :: "string option \<Rightarrow> string \<Rightarrow> string" where
  "str_or None d = d"
| "str_or (Some s) d = (if s = [] then d else s)"

fun num_or :: "int option \<Rightarrow> int \<Rightarrow> int" where
  "num_or None d = d"
| "num_or (Some n) d = (if n = 0 then d else n)"

subsection \<open>JavaScript numbers\<close>

text \<open>
  The clock in seconds and \<^verbatim>\<open>expires_in\<close> are whole numbers held as doubles, and
  \<^verbatim>\<open>+\<close> on them is the sum rounded to the nearest double, ties to the even significand
  of 53 bits. \<open>ulp m\<close> is the distance between the doubles around a magnitude \<open>m\<close>: 1
  below \<^verbatim>\<open>2^53\<close>, doubling with every further bit.
\<close>

fun ulp :: "nat \<Rightarrow> nat" where
  "ulp m = (if m < 2 ^ 53 then 1 else 2 * ulp (m div 2))"

declare ulp.simps [simp del]

definition round_to_double :: "int \<Rightarrow> int" where
  "round_to_double n =
     (let m = nat \<bar>n\<bar>; u = ulp m; q = m div u; r = m mod u;
          q' = (if u < 2 * r \<or> (2 * r = u \<and> odd q) then Suc q else q)
      in sgn n * int (q' * u))"

definition js_add :: "int \<Rightarrow> int \<Rightarrow> int" where
  "js_add a b = round_to_double (a + b)"

text \<open>
  The operands for which \<open>js_add\<close> is the \<^verbatim>\<open>+\<close> of the code: both are doubles, and the
  sum stays below the magnitude at which a double overflows to \<^verbatim>\<open>Infinity\<close>.
\<close>

definition js_operands :: "int \<Rightarrow> int \<Rightarrow> bool" where
  "js_operands a b = (round_to_double a = a \<and> round_to_double b = b \<and> \<bar>a + b\<bar> < 2 ^ 1023)"

text \<open>
  A call that ends by returning or by throwing, with the state it leaves in either case.
\<close>

datatype 'a attempt = Done (state_of: 'a) | Thrown (state_of: 'a)

fun thrown :: "'a attempt \<Rightarrow> bool" where
  "thrown (Done _) = False"
| "thrown (Thrown _) = True"

subsection \<open>The token store (\<^verbatim>\<open>token_store.js\<close>)\<close>

text \<open>
  A row of the table \<^verbatim>\<open>tokens\<close>; \<open>None\<close> in a column is SQL NULL. The table is the list
  of its rows in rowid order. \<^verbatim>\<open>id INTEGER PRIMARY KEY\<close> gets one more than the largest id
  in the table, 1 in an empty table.
\<close>

record token_row =
  row_id :: nat
  access_token :: "string option"
  refresh_token :: "string option"
  expires_at :: int

type_synonym tokens_table = "token_row list"

definition next_row_id :: "tokens_table \<Rightarrow> nat" where
  "next_row_id tbl = Suc (fold max (map row_id tbl) 0)"

text \<open>\<^verbatim>\<open>DELETE FROM tokens\<close>\<close>

definition delete_tokens :: "tokens_table \<Rightarrow> tokens_table" where
  "delete_tokens tbl = []"

text \<open>\<^verbatim>\<open>INSERT INTO tokens (access_token, refresh_token, expires_at) VALUES (?, ?, ?)\<close>\<close>

definition insert_tokens :: "string option \<Rightarrow> string option \<Rightarrow> int \<Rightarrow> tokens_table \<Rightarrow> tokens_table" where
  "insert_tokens a r e tbl =
     tbl @ [\<lparr>row_id = next_row_id tbl, access_token = a, refresh_token = r, expires_at = e\<rparr>]"

text \<open>
  The values \<^verbatim>\<open>saveTokens\<close> binds: \<^verbatim>\<open>refresh_token || null\<close> and
  \<^verbatim>\<open>Math.floor(Date.now() / 1000) + (expires_in || 3600)\<close>, \<open>now\<close> being the clock in
  seconds.
\<close>

definition bound_refresh_token :: "string option \<Rightarrow> string option" where
  "bound_refresh_token r = (case r of None \<Rightarrow> None | Some s \<Rightarrow> if s = [] then None else Some s)"

definition save_expires_at :: "int \<Rightarrow> int option \<Rightarrow> int" where
  "save_expires_at now e_in = js_add now (num_or e_in 3600)"

text \<open>
  \<^verbatim>\<open>saveTokens(db, {access_token, refresh_token, expires_in})\<close> run from its first line to its
  last with no other statement in between: the DELETE, then the INSERT. \<open>delete_ok\<close> and
  \<open>insert_ok\<close> tell how the two awaited \<^verbatim>\<open>db.run\<close> settle; a rejected statement
  changes nothing and is thrown out of \<^verbatim>\<open>saveTokens\<close>, so the INSERT is not run after a
  rejected DELETE.
\<close>

definition saveTokens ::
  "int \<Rightarrow> string option \<Rightarrow> string option \<Rightarrow> int option \<Rightarrow> bool \<Rightarrow> bool \<Rightarrow> tokens_table
     \<Rightarrow> tokens_table attempt" where
  "saveTokens now a r e_in delete_ok insert_ok tbl =
     (let e = save_expires_at now e_in
      in if \<not> delete_ok then Thrown tbl
         else if \<not> insert_ok then Thrown (delete_tokens tbl)
         else Done (insert_tokens a (bound_refresh_token r) e (delete_tokens tbl)))"

text \<open>\<^verbatim>\<open>SELECT * FROM tokens LIMIT 1\<close>, and \<^verbatim>\<open>row || null\<close>.\<close>

definition loadTokens :: "tokens_table \<Rightarrow> token_row option" where
  "loadTokens tbl = (case tbl of [] \<Rightarrow> None | row # _ \<Rightarrow> Some row)"

subsection \<open>Server state (\<^verbatim>\<open>server.js\<close>)\<close>

datatype ready_state = CONNECTING | OPEN | CLOSING | CLOSED

datatype log_line = Info string | Err string

datatype timer_status = Pending | Fired | Cleared

text \<open>How an awaited promise settles.\<close>

datatype 'a settled = Rejected | Fulfilled 'a

text \<open>
  The body of a token response, \<^verbatim>\<open>await resp.json()\<close>, at the types of the auth
  endpoint: two strings and a number of seconds, each of which may be missing.
\<close>

record token_data =
  data_access_token :: "string option"
  data_refresh_token :: "string option"
  data_expires_in :: "int option"

text \<open>
  Who awaits a token exchange: \<^verbatim>\<open>refreshAccessToken\<close> called by \<^verbatim>\<open>init\<close>, the same
  called by the 45-second interval, or the \<^verbatim>\<open>/auth/callback\<close> route.
\<close>

datatype caller = InitRefresh | TimerRefresh | AuthCallback

text \<open>
  A suspended \<^verbatim>\<open>async\<close> call, named by the \<^verbatim>\<open>await\<close> it stands at.
  \<open>AwaitDelete\<close> and \<open>AwaitInsert\<close> are inside \<^verbatim>\<open>saveTokens\<close> and carry the three
  values of its INSERT. \<open>AwaitLtp\<close> carries the subscriber and \<^verbatim>\<open>parsed.symbol\<close>.
  \<open>Settled v\<close> is a call whose promise was fulfilled with \<open>v\<close>.
\<close>

datatype task =
    AwaitExchange caller
  | AwaitDelete caller "string option" "string option" int
  | AwaitInsert caller "string option" "string option" int
  | AwaitLtp nat jsval
  | Settled jsval

text \<open>
  The module's variables (lines 20 to 26), the table on disk, and the world around them:
  the upstream sockets made so far (\<open>ws_count\<close> of them, each with its
  \<^verbatim>\<open>readyState\<close> and the token in its URL), the subscribers' sockets, the
  \<^verbatim>\<open>setTimeout\<close> timers (delay in milliseconds and status, the handle is the index), the
  suspended calls, whether the 45-second interval runs, whether the process has exited, and
  what was sent: upstream, to subscribers, as HTTP responses (status and body), to the log.
\<close>

record server =
  upstoxAccessToken :: string
  upstoxRefreshToken :: string
  tokenExpiresAt :: int
  upstoxWS :: "nat option"
  frontendClients :: "nat list"
  reconnectTimer :: "nat option"
  db :: tokens_table
  ws_ready :: "nat \<Rightarrow> ready_state"
  ws_token :: "nat \<Rightarrow> string"
  ws_count :: nat
  client_ready :: "nat \<Rightarrow> ready_state"
  timers :: "(nat \<times> timer_status) list"
  tasks :: "task list"
  interval_on :: bool
  exited :: bool
  ws_out :: "(nat \<times> jsval) list"
  client_out :: "(nat \<times> jsval) list"
  http_out :: "(nat \<times> string) list"
  logs :: "log_line list"

text \<open>The state when the module has been loaded, over the table found on disk.\<close>

definition boot_state :: "tokens_table \<Rightarrow> server" where
  "boot_state tbl =
     \<lparr>upstoxAccessToken = [], upstoxRefreshToken = [], tokenExpiresAt = 0, upstoxWS = None,
      frontendClients = [], reconnectTimer = None, db = tbl,
      ws_ready = (\<lambda>_. CLOSED), ws_token = (\<lambda>_. []), ws_count = 0,
      client_ready = (\<lambda>_. CLOSED), timers = [], tasks = [],
      interval_on = False, exited = False,
      ws_out = [], client_out = [], http_out = [], logs = []\<rparr>"

text \<open>
  \<^verbatim>\<open>log\<close> and \<^verbatim>\<open>logErr\<close>: a line is recorded by its fixed leading text, in ASCII,
  without the values printed after it. (\<open>log\<close> being the logarithm, the first is named
  \<open>log_info\<close>.)
\<close>

definition log_info :: "string \<Rightarrow> server \<Rightarrow> server" where
  "log_info m s = s\<lparr>logs := logs s @ [Info m]\<rparr>"

definition logErr :: "string \<Rightarrow> server \<Rightarrow> server" where
  "logErr m s = s\<lparr>logs := logs s @ [Err m]\<rparr>"

text \<open>\<^verbatim>\<open>setTimeout(cb, delay)\<close> returns the new handle; \<^verbatim>\<open>clearTimeout\<close> cancels a
  timer that has not fired.\<close>

definition setTimeout :: "nat \<Rightarrow> server \<Rightarrow> nat \<times> server" where
  "setTimeout delay s = (length (timers s), s\<lparr>timers := timers s @ [(delay, Pending)]\<rparr>)"

definition clearTimeout :: "nat \<Rightarrow> server \<Rightarrow> server" where
  "clearTimeout t s =
     (if t < length (timers s) \<and> snd (timers s ! t) = Pending
      then s\<lparr>timers := (timers s)[t := (fst (timers s ! t), Cleared)]\<rparr> else s)"

definition pending_timers :: "server \<Rightarrow> nat list" where
  "pending_timers s = filter (\<lambda>t. snd (timers s ! t) = Pending) [0..<length (timers s)]"

text \<open>\<^verbatim>\<open>upstoxWS && upstoxWS.readyState === WebSocket.OPEN\<close>\<close>

definition upstox_open :: "server \<Rightarrow> bool" where
  "upstox_open s = (case upstoxWS s of None \<Rightarrow> False | Some w \<Rightarrow> ws_ready s w = OPEN)"

text \<open>The upstream sockets that are connecting or open.\<close>

definition live_sockets :: "server \<Rightarrow> nat list" where
  "live_sockets s = filter (\<lambda>w. ws_ready s w = CONNECTING \<or> ws_ready s w = OPEN) [0..<ws_count s]"

text \<open>
  \<^verbatim>\<open>socket.close()\<close> of the ws library: a connecting or open socket starts closing.
  \<^verbatim>\<open>send\<close> is recorded with its socket; on an open socket it does not throw.
\<close>

definition ws_close :: "nat \<Rightarrow> server \<Rightarrow> server" where
  "ws_close w s =
     (if ws_ready s w = CONNECTING \<or> ws_ready s w = OPEN
      then s\<lparr>ws_ready := (ws_ready s)(w := CLOSING)\<rparr> else s)"

definition ws_send :: "nat \<Rightarrow> jsval \<Rightarrow> server \<Rightarrow> server" where
  "ws_send w v s = s\<lparr>ws_out := ws_out s @ [(w, v)]\<rparr>"

definition client_send :: "nat \<Rightarrow> jsval \<Rightarrow> server \<Rightarrow> server" where
  "client_send c v s = s\<lparr>client_out := client_out s @ [(c, v)]\<rparr>"

definition http_send :: "nat \<Rightarrow> string \<Rightarrow> server \<Rightarrow> server" where
  "http_send status body s = s\<lparr>http_out := http_out s @ [(status, body)]\<rparr>"

subsection \<open>The upstream socket\<close>

text \<open>
  \<^verbatim>\<open>connectUpstoxWS\<close> (lines 69 to 123): the two early returns, the timer cleared, then
  \<^verbatim>\<open>new WebSocket(url)\<close>. The token goes into the URL as it is (line 81); \<open>url_ok\<close>
  tells whether the constructor of the ws library accepts the URL made from a token. When
  it does, the new socket starts in CONNECTING and is assigned to \<^verbatim>\<open>upstoxWS\<close>; when
  it does not (a token with a fragment sign, for one), the constructor throws, nothing is
  assigned, and the exception leaves \<^verbatim>\<open>connectUpstoxWS\<close>, which has no \<^verbatim>\<open>try\<close>.
\<close>

definition connectUpstoxWS :: "(string \<Rightarrow> bool) \<Rightarrow> server \<Rightarrow> server attempt" where
  "connectUpstoxWS url_ok s =
     (if upstoxAccessToken s = []
      then Done (log_info ''No access token available yet - skipping Upstox WS connect'' s)
      else if upstox_open s
      then Done (log_info ''Upstox WS already connected'' s)
      else
        let s1 = log_info ''Connecting to Upstox WS:'' s;
            s2 = (case reconnectTimer s1 of
                    None \<Rightarrow> s1
                  | Some t \<Rightarrow> (clearTimeout t s1)\<lparr>reconnectTimer := None\<rparr>);
            w = ws_count s2
        in if url_ok (upstoxAccessToken s2)
           then Done (s2\<lparr>upstoxWS := Some w,
                         ws_ready := (ws_ready s2)(w := CONNECTING),
                         ws_token := (ws_token s2)(w := upstoxAccessToken s2),
                         ws_count := Suc w\<rparr>)
           else Thrown s2)"

text \<open>The handlers set on every upstream socket (lines 92 to 122).\<close>

definition upstox_on_open :: "server \<Rightarrow> server" where
  "upstox_on_open s = log_info ''Connected to Upstox live feed'' s"

text \<open>The loop over \<^verbatim>\<open>frontendClients\<close> of the message handler.\<close>

fun broadcast :: "jsval \<Rightarrow> nat list \<Rightarrow> server \<Rightarrow> server" where
  "broadcast payload [] s = s"
| "broadcast payload (c # cs) s =
     broadcast payload cs (if client_ready s c = OPEN then client_send c payload s else s)"

definition upstox_on_message :: "(string \<Rightarrow> jsval option) \<Rightarrow> string \<Rightarrow> server \<Rightarrow> server" where
  "upstox_on_message parse message s =
     (let parsed = (case parse message of Some v \<Rightarrow> v | None \<Rightarrow> JStr message);
          payload = JObj [(''source'', JStr ''upstox''), (''data'', parsed)]
      in broadcast payload (frontendClients s) s)"

definition upstox_on_close :: "server \<Rightarrow> server" where
  "upstox_on_close s =
     (let (t, s1) = setTimeout 5000 (log_info ''Upstox WS closed:'' s)
      in s1\<lparr>reconnectTimer := Some t\<rparr>)"

text \<open>
  The callback of that timer. Nothing catches what it throws: an exception that leaves a
  timer's callback ends the Node process.
\<close>

definition reconnect_callback :: "(string \<Rightarrow> bool) \<Rightarrow> server \<Rightarrow> server" where
  "reconnect_callback url_ok s =
     (case connectUpstoxWS url_ok (log_info ''Reconnecting to Upstox WS...'' s) of
        Done s1 \<Rightarrow> s1
      | Thrown s1 \<Rightarrow> s1\<lparr>exited := True\<rparr>)"

text \<open>\<^verbatim>\<open>upstoxWS.close()\<close> in the error handler closes the socket the variable holds now.\<close>

definition upstox_on_error :: "server \<Rightarrow> server" where
  "upstox_on_error s =
     (let s1 = logErr ''Upstox WS error:'' s
      in case upstoxWS s1 of None \<Rightarrow> s1 | Some w \<Rightarrow> ws_close w s1)"

text \<open>
  \<^verbatim>\<open>forwardSubscriptionToUpstox(symbols = [])\<close> (lines 126 to 142), with its result.
  The default applies to \<^verbatim>\<open>undefined\<close>. The \<^verbatim>\<open>catch\<close> around \<^verbatim>\<open>send\<close> is
  not reached: the socket has just been found open.
\<close>

definition forwardSubscriptionToUpstox :: "jsval \<Rightarrow> server \<Rightarrow> bool \<times> server" where
  "forwardSubscriptionToUpstox symbols0 s =
     (let symbols = (if symbols0 = JUndefined then JArr [] else symbols0)
      in if \<not> isArray symbols \<or> array_length symbols = 0 then (False, s)
         else case upstoxWS s of
                None \<Rightarrow> (False, s)
              | Some w \<Rightarrow>
                  if ws_ready s w = OPEN
                  then (True, ws_send w (JObj [(''action'', JStr ''subscribe''), (''symbols'', symbols)]) s)
                  else (False, s))"

subsection \<open>Token refresh and the authorisation callback\<close>

text \<open>
  What runs when a call of \<^verbatim>\<open>refreshAccessToken\<close> has returned: \<^verbatim>\<open>init\<close>, which
  awaits it, goes on to \<^verbatim>\<open>setInterval\<close> (line 53); the interval's callback and the route
  have nothing left to do. The function has no \<^verbatim>\<open>return\<close> with a value, so its promise
  is fulfilled with \<^verbatim>\<open>undefined\<close> on every path.
\<close>

definition after_return :: "caller \<Rightarrow> server \<Rightarrow> server" where
  "after_return c s = (case c of InitRefresh \<Rightarrow> s\<lparr>interval_on := True\<rparr> | _ \<Rightarrow> s)"

definition settle :: "nat \<Rightarrow> caller \<Rightarrow> server \<Rightarrow> server" where
  "settle i c s = after_return c (s\<lparr>tasks := (tasks s)[i := Settled JUndefined]\<rparr>)"

text \<open>
  \<^verbatim>\<open>refreshAccessToken\<close> up to its first \<^verbatim>\<open>await\<close> (lines 145 to 163): without a
  refresh token it returns, otherwise the POST is sent and the call is suspended.
\<close>

definition refreshAccessToken :: "caller \<Rightarrow> server \<Rightarrow> server" where
  "refreshAccessToken c s =
     (if upstoxRefreshToken s = []
      then after_return c (log_info ''No refresh token available to refresh access token'' s)
      else s\<lparr>tasks := tasks s @ [AwaitExchange c]\<rparr>)"

text \<open>The refresh exchanges that have been sent and have not settled.\<close>

fun is_refresh_exchange :: "task \<Rightarrow> bool" where
  "is_refresh_exchange (AwaitExchange c) = (c \<noteq> AuthCallback)"
| "is_refresh_exchange _ = False"

definition exchanges_in_flight :: "server \<Rightarrow> nat" where
  "exchanges_in_flight s = length (filter is_refresh_exchange (tasks s))"

text \<open>The \<^verbatim>\<open>catch\<close> blocks of the two callers (lines 178 to 180 and 220 to 223).\<close>

definition refresh_catch :: "nat \<Rightarrow> caller \<Rightarrow> server \<Rightarrow> server" where
  "refresh_catch i c s = settle i c (logErr ''Error refreshing access token:'' s)"

definition callback_catch :: "nat \<Rightarrow> server \<Rightarrow> server" where
  "callback_catch i s =
     settle i AuthCallback
       (http_send 500 ''Auth callback error - check server logs'' (logErr ''Auth callback error:'' s))"

text \<open>
  \<^verbatim>\<open>refreshAccessToken\<close> from the settled exchange (lines 159 to 170) to the first
  \<^verbatim>\<open>await\<close> inside \<^verbatim>\<open>saveTokens\<close> (line 23). \<open>now\<close> is the clock read at line 169,
  \<open>now_save\<close> the clock read at line 22, both in seconds. A rejected \<^verbatim>\<open>fetch\<close> or
  \<^verbatim>\<open>resp.json()\<close> is \<open>Rejected\<close>; a body that is \<^verbatim>\<open>null\<close> is \<open>Fulfilled None\<close>.
\<close>

definition refresh_on_exchange ::
  "nat \<Rightarrow> caller \<Rightarrow> token_data option settled \<Rightarrow> int \<Rightarrow> int \<Rightarrow> server \<Rightarrow> server" where
  "refresh_on_exchange i c outcome now now_save s =
     (let no_token = settle i c (logErr ''Refresh token response did not contain access_token:'' s)
      in case outcome of
           Rejected \<Rightarrow> refresh_catch i c s
         | Fulfilled None \<Rightarrow> no_token
         | Fulfilled (Some d) \<Rightarrow>
             (case data_access_token d of
                None \<Rightarrow> no_token
              | Some a \<Rightarrow>
                  if a = [] then no_token
                  else
                    let s1 = s\<lparr>upstoxAccessToken := a,
                               upstoxRefreshToken := str_or (data_refresh_token d) (upstoxRefreshToken s),
                               tokenExpiresAt := js_add now (num_or (data_expires_in d) 3600)\<rparr>
                    in s1\<lparr>tasks := (tasks s1)[i := AwaitDelete c (Some (upstoxAccessToken s1))
                                  (bound_refresh_token (Some (upstoxRefreshToken s1)))
                                  (save_expires_at now_save (data_expires_in d))]\<rparr>))"

text \<open>The same stretch of the route (lines 197 to 213).\<close>

definition callback_on_exchange ::
  "nat \<Rightarrow> token_data option settled \<Rightarrow> int \<Rightarrow> int \<Rightarrow> server \<Rightarrow> server" where
  "callback_on_exchange i outcome now now_save s =
     (let failed = settle i AuthCallback
            (http_send 500 ''Token exchange failed - check server logs''
               (logErr ''Token exchange failed:'' s))
      in case outcome of
           Rejected \<Rightarrow> callback_catch i s
         | Fulfilled None \<Rightarrow> failed
         | Fulfilled (Some d) \<Rightarrow>
             (case data_access_token d of
                None \<Rightarrow> failed
              | Some a \<Rightarrow>
                  if a = [] then failed
                  else
                    let s1 = s\<lparr>upstoxAccessToken := a,
                               upstoxRefreshToken := str_or (data_refresh_token d) [],
                               tokenExpiresAt := js_add now (num_or (data_expires_in d) 3600)\<rparr>
                    in s1\<lparr>tasks := (tasks s1)[i := AwaitDelete AuthCallback (Some (upstoxAccessToken s1))
                                  (bound_refresh_token (Some (upstoxRefreshToken s1)))
                                  (save_expires_at now_save (data_expires_in d))]\<rparr>))"

text \<open>
  What follows \<^verbatim>\<open>await saveTokens(...)\<close> in the two callers (lines 171 to 174 and 214 to
  219). Both stand inside the caller's \<^verbatim>\<open>try\<close>, so what \<^verbatim>\<open>connectUpstoxWS\<close>
  throws goes to the caller's \<^verbatim>\<open>catch\<close>.
\<close>

definition refresh_after_save :: "(string \<Rightarrow> bool) \<Rightarrow> nat \<Rightarrow> caller \<Rightarrow> server \<Rightarrow> server" where
  "refresh_after_save url_ok i c s =
     (let s1 = log_info ''Refreshed Upstox access token and saved to DB'' s
      in if \<not> upstox_open s1
         then case connectUpstoxWS url_ok s1 of
                Done s2 \<Rightarrow> settle i c s2
              | Thrown s2 \<Rightarrow> refresh_catch i c s2
         else settle i c s1)"

definition callback_after_save :: "(string \<Rightarrow> bool) \<Rightarrow> nat \<Rightarrow> server \<Rightarrow> server" where
  "callback_after_save url_ok i s =
     (let s1 = log_info ''Access token saved to DB via /auth/callback'' s
      in case connectUpstoxWS url_ok s1 of
           Done s2 \<Rightarrow>
             settle i AuthCallback (http_send 200 ''Access token saved. You can close this window.'' s2)
         | Thrown s2 \<Rightarrow> callback_catch i s2)"

text \<open>
  \<^verbatim>\<open>saveTokens\<close> when its DELETE has settled (line 23 to line 24) and when its INSERT has
  settled (line 29, then back in the caller). A statement takes effect when it settles with
  success; a rejected one throws into the caller's \<^verbatim>\<open>catch\<close>.
\<close>

definition save_on_delete :: "nat \<Rightarrow> bool \<Rightarrow> server \<Rightarrow> server" where
  "save_on_delete i ok s =
     (case tasks s ! i of
        AwaitDelete c a r e \<Rightarrow>
          if ok then s\<lparr>db := delete_tokens (db s), tasks := (tasks s)[i := AwaitInsert c a r e]\<rparr>
          else if c = AuthCallback then callback_catch i s else refresh_catch i c s
      | _ \<Rightarrow> s)"

definition save_on_insert :: "(string \<Rightarrow> bool) \<Rightarrow> nat \<Rightarrow> bool \<Rightarrow> server \<Rightarrow> server" where
  "save_on_insert url_ok i ok s =
     (case tasks s ! i of
        AwaitInsert c a r e \<Rightarrow>
          if ok
          then let s1 = s\<lparr>db := insert_tokens a r e (db s)\<rparr>
               in if c = AuthCallback then callback_after_save url_ok i s1
                  else refresh_after_save url_ok i c s1
          else if c = AuthCallback then callback_catch i s else refresh_catch i c s
      | _ \<Rightarrow> s)"

text \<open>The route \<^verbatim>\<open>GET /auth/callback\<close> up to its \<^verbatim>\<open>await fetch\<close> (lines 184 to 201).\<close>

definition auth_callback :: "string option \<Rightarrow> server \<Rightarrow> server" where
  "auth_callback code s =
     (if str_or code [] = [] then http_send 400 ''Missing code query param'' s
      else s\<lparr>tasks := tasks s @ [AwaitExchange AuthCallback]\<rparr>)"

text \<open>
  \<^verbatim>\<open>init\<close> (lines 33 to 66) once \<^verbatim>\<open>initDb\<close> has settled, \<open>db_ok\<close> telling how:
  the saved row is loaded, a token that expires within 60 seconds is refreshed, any other is
  used to connect. \<open>start_interval\<close> is \<^verbatim>\<open>setInterval\<close> at line 53. What
  \<^verbatim>\<open>connectUpstoxWS\<close> throws is caught at line 62, where the process exits. The
  difference \<^verbatim>\<open>tokenExpiresAt - now\<close> is a double; it is below 60, or below 120 in the
  periodic check, exactly when the difference of the two integers is (\<open>double_less_iff\<close>
  below).
\<close>

definition start_interval :: "server \<Rightarrow> server" where
  "start_interval s = s\<lparr>interval_on := True\<rparr>"

definition init :: "(string \<Rightarrow> bool) \<Rightarrow> bool \<Rightarrow> int \<Rightarrow> server \<Rightarrow> server" where
  "init url_ok db_ok now s =
     (if \<not> db_ok then (logErr ''Init error'' s)\<lparr>exited := True\<rparr>
      else case loadTokens (db s) of
             None \<Rightarrow> start_interval (log_info ''No saved tokens found. Perform OAuth to populate tokens.'' s)
           | Some saved \<Rightarrow>
               let s1 = log_info ''Loaded tokens from DB. Expires at:''
                          (s\<lparr>upstoxAccessToken := str_or (access_token saved) [],
                             upstoxRefreshToken := str_or (refresh_token saved) [],
                             tokenExpiresAt := num_or (Some (expires_at saved)) 0\<rparr>)
               in if tokenExpiresAt s1 - now < 60 then refreshAccessToken InitRefresh s1
                  else case connectUpstoxWS url_ok s1 of
                         Done s2 \<Rightarrow> start_interval s2
                       | Thrown s2 \<Rightarrow> (logErr ''Init error'' s2)\<lparr>exited := True\<rparr>)"

text \<open>The callback of the 45-second interval (lines 53 to 61).\<close>

definition periodic_check :: "int \<Rightarrow> server \<Rightarrow> server" where
  "periodic_check now s =
     (if tokenExpiresAt s \<noteq> 0 \<and> tokenExpiresAt s - now < 120
      then refreshAccessToken TimerRefresh s else s)"

subsection \<open>Subscribers\<close>

text \<open>\<^verbatim>\<open>frontendClients\<close> is a Set: adding a member again changes nothing.\<close>

definition set_add :: "nat \<Rightarrow> nat list \<Rightarrow> nat list" where
  "set_add c cs = (if c \<in> set cs then cs else cs @ [c])"

definition client_on_connection :: "nat \<Rightarrow> server \<Rightarrow> server" where
  "client_on_connection c s =
     (let s1 = log_info ''Frontend client connected'' s
      in s1\<lparr>frontendClients := set_add c (frontendClients s1)\<rparr>)"

text \<open>The \<^verbatim>\<open>catch\<close> of the subscriber's message handler (lines 293 to 296).\<close>

definition invalid_message :: "nat \<Rightarrow> server \<Rightarrow> server" where
  "invalid_message c s =
     client_send c (JObj [(''error'', JStr ''Invalid message format'')])
       (logErr ''Invalid message from frontend:'' s)"

text \<open>
  The subscriber's message handler (lines 264 to 297). The \<^verbatim>\<open>ltp\<close> branch starts an
  \<^verbatim>\<open>async\<close> function and returns. \<open>encodable\<close> tells whether
  \<^verbatim>\<open>encodeURIComponent\<close> accepts \<^verbatim>\<open>parsed.symbol\<close>: when it does, the function is
  suspended at its \<^verbatim>\<open>fetch\<close>; when it throws (a string with a lone surrogate), the
  \<^verbatim>\<open>catch\<close> of that function (line 285) sends the failure reply at once.
\<close>

definition client_on_message ::
  "(string \<Rightarrow> jsval option) \<Rightarrow> (jsval \<Rightarrow> bool) \<Rightarrow> nat \<Rightarrow> string \<Rightarrow> server \<Rightarrow> server" where
  "client_on_message parse encodable c msg s =
     (case parse msg of
        None \<Rightarrow> invalid_message c s
      | Some parsed \<Rightarrow>
          (case get_prop parsed ''action'' of
             None \<Rightarrow> invalid_message c s
           | Some action \<Rightarrow>
               let symbols = (case get_prop parsed ''symbols'' of Some v \<Rightarrow> v | None \<Rightarrow> JUndefined);
                   symbol = (case get_prop parsed ''symbol'' of Some v \<Rightarrow> v | None \<Rightarrow> JUndefined)
               in if action = JStr ''subscribe'' \<and> isArray symbols
                  then let (ok, s1) = forwardSubscriptionToUpstox symbols s
                       in if ok
                          then client_send c
                                 (JObj [(''ok'', JBool True), (''info'', JStr ''Subscription forwarded to Upstox'')]) s1
                          else client_send c
                                 (JObj [(''ok'', JBool False), (''error'', JStr ''Upstox WS not connected yet'')]) s1
                  else if action = JStr ''ltp'' \<and> truthy symbol
                  then if encodable symbol
                       then s\<lparr>tasks := tasks s @ [AwaitLtp c symbol]\<rparr>
                       else client_send c
                              (JObj [(''type'', JStr ''ltp_response''), (''error'', JStr ''failed'')]) s
                  else client_send c (JObj [(''echo'', parsed)]) s))"

text \<open>The rest of that \<^verbatim>\<open>async\<close> function, when its \<^verbatim>\<open>fetch\<close> and \<^verbatim>\<open>resp.json()\<close>
  have settled (lines 282 to 286).\<close>

definition ltp_on_settled :: "nat \<Rightarrow> jsval settled \<Rightarrow> server \<Rightarrow> server" where
  "ltp_on_settled i outcome s =
     (case tasks s ! i of
        AwaitLtp c symbol \<Rightarrow>
          (let s1 = (case outcome of
                       Fulfilled j \<Rightarrow>
                         client_send c (JObj [(''type'', JStr ''ltp_response''), (''symbol'', symbol), (''data'', j)]) s
                     | Rejected \<Rightarrow>
                         client_send c (JObj [(''type'', JStr ''ltp_response''), (''error'', JStr ''failed'')]) s)
           in s1\<lparr>tasks := (tasks s1)[i := Settled JUndefined]\<rparr>)
      | _ \<Rightarrow> s)"

definition client_on_close :: "nat \<Rightarrow> server \<Rightarrow> server" where
  "client_on_close c s =
     (let s1 = log_info ''Frontend client disconnected'' s
      in s1\<lparr>frontendClients := removeAll c (frontendClients s1)\<rparr>)"

definition client_on_error :: "nat \<Rightarrow> server \<Rightarrow> server" where
  "client_on_error c s =
     (let s1 = logErr ''Frontend WS error:'' s;
          s2 = s1\<lparr>frontendClients := removeAll c (frontendClients s1)\<rparr>
      in if client_ready s2 c = CONNECTING \<or> client_ready s2 c = OPEN
         then s2\<lparr>client_ready := (client_ready s2)(c := CLOSING)\<rparr> else s2)"

subsection \<open>The event loop\<close>

text \<open>
  One event is one callback run by the loop. The sockets' \<^verbatim>\<open>readyState\<close> is set by the
  ws library before it calls a handler (OPEN before \<^verbatim>\<open>open\<close>, CLOSING before
  \<^verbatim>\<open>error\<close>, CLOSED before \<^verbatim>\<open>close\<close>); an event that the library, the timers or the
  promises
  cannot deliver in the present state (an \<^verbatim>\<open>open\<close> on a socket that is not connecting, a
  timer that was cleared, a task that is not waiting) leaves the state as it is.
\<close>

record platform =
  json_parse :: "string \<Rightarrow> jsval option"
  url_accepted :: "string \<Rightarrow> bool"
  uri_encodable :: "jsval \<Rightarrow> bool"

datatype event =
    IntervalTick int
  | ReconnectFire nat
  | UpstreamOpen nat
  | UpstreamMessage nat string
  | UpstreamClose nat
  | UpstreamError nat
  | AuthCallbackRequest "string option"
  | ExchangeSettled nat "token_data option settled" int int
  | DbRunSettled nat bool
  | LtpSettled nat "jsval settled"
  | ClientConnect nat
  | ClientMessage nat string
  | ClientClose nat
  | ClientError nat

definition exchange_settled ::
  "nat \<Rightarrow> token_data option settled \<Rightarrow> int \<Rightarrow> int \<Rightarrow> server \<Rightarrow> server" where
  "exchange_settled i outcome now now_save s =
     (if i < length (tasks s)
      then case tasks s ! i of
             AwaitExchange c \<Rightarrow>
               if c = AuthCallback then callback_on_exchange i outcome now now_save s
               else refresh_on_exchange i c outcome now now_save s
           | _ \<Rightarrow> s
      else s)"

definition db_run_settled :: "(string \<Rightarrow> bool) \<Rightarrow> nat \<Rightarrow> bool \<Rightarrow> server \<Rightarrow> server" where
  "db_run_settled url_ok i ok s =
     (if i < length (tasks s)
      then case tasks s ! i of
             AwaitDelete c a r e \<Rightarrow> save_on_delete i ok s
           | AwaitInsert c a r e \<Rightarrow> save_on_insert url_ok i ok s
           | _ \<Rightarrow> s
      else s)"

definition step :: "platform \<Rightarrow> event \<Rightarrow> server \<Rightarrow> server" where
  "step pf ev s =
     (if exited s then s
      else case ev of
        IntervalTick now \<Rightarrow> if interval_on s then periodic_check now s else s
      | ReconnectFire t \<Rightarrow>
          if t < length (timers s) \<and> snd (timers s ! t) = Pending
          then reconnect_callback (url_accepted pf)
                 (s\<lparr>timers := (timers s)[t := (fst (timers s ! t), Fired)]\<rparr>)
          else s
      | UpstreamOpen w \<Rightarrow>
          if w < ws_count s \<and> ws_ready s w = CONNECTING
          then upstox_on_open (s\<lparr>ws_ready := (ws_ready s)(w := OPEN)\<rparr>) else s
      | UpstreamMessage w m \<Rightarrow>
          if w < ws_count s \<and> (ws_ready s w = OPEN \<or> ws_ready s w = CLOSING)
          then upstox_on_message (json_parse pf) m s else s
      | UpstreamClose w \<Rightarrow>
          if w < ws_count s \<and> ws_ready s w \<noteq> CLOSED
          then upstox_on_close (s\<lparr>ws_ready := (ws_ready s)(w := CLOSED)\<rparr>) else s
      | UpstreamError w \<Rightarrow>
          if w < ws_count s \<and> ws_ready s w \<noteq> CLOSED
          then upstox_on_error (s\<lparr>ws_ready := (ws_ready s)(w := CLOSING)\<rparr>) else s
      | AuthCallbackRequest code \<Rightarrow> auth_callback code s
      | ExchangeSettled i outcome now now_save \<Rightarrow> exchange_settled i outcome now now_save s
      | DbRunSettled i ok \<Rightarrow> db_run_settled (url_accepted pf) i ok s
      | LtpSettled i outcome \<Rightarrow> if i < length (tasks s) then ltp_on_settled i outcome s else s
      | ClientConnect c \<Rightarrow>
          if client_ready s c = CLOSED \<and> c \<notin> set (frontendClients s)
          then client_on_connection c (s\<lparr>client_ready := (client_ready s)(c := OPEN)\<rparr>) else s
      | ClientMessage c m \<Rightarrow>
          if client_ready s c = OPEN
          then client_on_message (json_parse pf) (uri_encodable pf) c m s else s
      | ClientClose c \<Rightarrow>
          if client_ready s c \<noteq> CLOSED
          then client_on_close c (s\<lparr>client_ready := (client_ready s)(c := CLOSED)\<rparr>) else s
      | ClientError c \<Rightarrow>
          if client_ready s c \<noteq> CLOSED then client_on_error c s else s)"

text \<open>The events of a list, one after the other.\<close>

fun run :: "platform \<Rightarrow> event list \<Rightarrow> server \<Rightarrow> server" where
  "run pf [] s = s"
| "run pf (ev # evs) s = run pf evs (step pf ev s)"

subsection \<open>Sample rows, states and messages\<close>

text \<open>
  A saved credential, a token response, and the server started at second 1000 over a table
  holding that credential: the token is good for more than 60 seconds, so \<^verbatim>\<open>init\<close>
  connects (socket 0, connecting) and starts the interval.
\<close>

definition saved_row :: token_row where
  "saved_row = \<lparr>row_id = 1, access_token = Some ''A'', refresh_token = Some ''R'', expires_at = 5000\<rparr>"

definition fresh_data :: token_data where
  "fresh_data = \<lparr>data_access_token = Some ''B'', data_refresh_token = None, data_expires_in = Some 3600\<rparr>"

text \<open>
  A platform for the samples: the socket constructor refuses a URL with a fragment sign and
  accepts every other, and \<^verbatim>\<open>encodeURIComponent\<close> accepts every symbol.
\<close>

definition sample_url_ok :: "string \<Rightarrow> bool" where
  "sample_url_ok tok = (CHR 0x23 \<notin> set tok)"

definition booted :: server where
  "booted = init sample_url_ok True 1000 (boot_state [saved_row])"

text \<open>Sample texts of subscribers, with the values \<^verbatim>\<open>JSON.parse\<close> gives for them.\<close>

definition quoted :: "string \<Rightarrow> string" where
  "quoted x = [CHR 0x22] @ x @ [CHR 0x22]"

definition subscribe_X_text :: string where
  "subscribe_X_text =
     ''{'' @ quoted ''action'' @ '':'' @ quoted ''subscribe'' @ '','' @ quoted ''symbols'' @ '':[''
       @ quoted ''X'' @ '']}''"

definition subscribe_X :: jsval where
  "subscribe_X = JObj [(''action'', JStr ''subscribe''), (''symbols'', JArr [JStr ''X''])]"

definition subscribe_none_text :: string where
  "subscribe_none_text =
     ''{'' @ quoted ''action'' @ '':'' @ quoted ''subscribe'' @ '','' @ quoted ''symbols'' @ '':[]}''"

definition subscribe_none :: jsval where
  "subscribe_none = JObj [(''action'', JStr ''subscribe''), (''symbols'', JArr [])]"

definition subscribe_str_text :: string where
  "subscribe_str_text =
     ''{'' @ quoted ''action'' @ '':'' @ quoted ''subscribe'' @ '','' @ quoted ''symbols'' @ '':''
       @ quoted ''X'' @ ''}''"

definition subscribe_str :: jsval where
  "subscribe_str = JObj [(''action'', JStr ''subscribe''), (''symbols'', JStr ''X'')]"

definition ltp_text :: string where
  "ltp_text =
     ''{'' @ quoted ''action'' @ '':'' @ quoted ''ltp'' @ '','' @ quoted ''symbol'' @ '':''
       @ quoted ''X'' @ ''}''"

definition ltp_X :: jsval where
  "ltp_X = JObj [(''action'', JStr ''ltp''), (''symbol'', JStr ''X'')]"

text \<open>
  \<^verbatim>\<open>JSON.parse\<close> on these texts and on \<^verbatim>\<open>null\<close>; every other text, such as
  \<^verbatim>\<open>hello\<close>, is taken as one that does not parse. The theorems below hold for every
  parser; this one serves to run them.
\<close>

definition sample_parse :: "string \<Rightarrow> jsval option" where
  "sample_parse m =
     (if m = subscribe_X_text then Some subscribe_X
      else if m = subscribe_none_text then Some subscribe_none
      else if m = subscribe_str_text then Some subscribe_str
      else if m = ltp_text then Some ltp_X
      else if m = ''null'' then Some JNull
      else None)"

definition sample_platform :: platform where
  "sample_platform =
     \<lparr>json_parse = sample_parse, url_accepted = sample_url_ok, uri_encodable = (\<lambda>_. True)\<rparr>"

text \<open>The upstream socket open and one subscriber connected.\<close>

definition serving :: server where
  "serving = run sample_platform [UpstreamOpen 0, ClientConnect 0] booted"

text \<open>The same after the subscriber has asked for a quote, the \<^verbatim>\<open>fetch\<close> not settled.\<close>

definition awaiting_ltp :: server where
  "awaiting_ltp = step sample_platform (ClientMessage 0 ltp_text) serving"

text \<open>
  The upstream socket closed and its reconnect timer pending, a periodic refresh whose
  exchange has answered with a new token, and the timer firing while \<^verbatim>\<open>saveTokens\<close>
  waits for its DELETE.
\<close>

definition mid_save :: server where
  "mid_save = run sample_platform
      [UpstreamClose 0, IntervalTick 4900,
       ExchangeSettled 0 (Fulfilled (Some fresh_data)) 4901 4901, ReconnectFire 0] booted"

text \<open>A token is durable when a row of the table holds it.\<close>

definition durable :: "server \<Rightarrow> string \<Rightarrow> bool" where
  "durable s tok = (Some tok \<in> set (map access_token (db s)))"

text \<open>
  A periodic refresh whose exchange is rejected, one that runs to its end, and one whose
  INSERT is rejected after the DELETE went through.
\<close>

definition rejected_refresh :: server where
  "rejected_refresh = run sample_platform [IntervalTick 4900, ExchangeSettled 0 Rejected 4901 4901] booted"

definition completed_refresh :: server where
  "completed_refresh = run sample_platform
     [IntervalTick 4900, ExchangeSettled 0 (Fulfilled (Some fresh_data)) 4901 4901,
      DbRunSettled 0 True, DbRunSettled 0 True] booted"

definition failed_insert :: server where
  "failed_insert = run sample_platform
     [IntervalTick 4900, ExchangeSettled 0 (Fulfilled (Some fresh_data)) 4901 4901,
      DbRunSettled 0 True, DbRunSettled 0 False] booted"

text \<open>A periodic refresh whose exchange has answered and whose DELETE has not settled.\<close>

definition awaiting_delete :: server where
  "awaiting_delete = run sample_platform
     [IntervalTick 4900, ExchangeSettled 0 (Fulfilled (Some fresh_data)) 4901 4901] booted"

text \<open>
  Two periodic refreshes, the second started before the first exchange has answered; both
  answer with a new token, and the two saves overlap.
\<close>

definition newer_data :: token_data where
  "newer_data = \<lparr>data_access_token = Some ''C'', data_refresh_token = None, data_expires_in = Some 3600\<rparr>"

definition overlapping_saves :: server where
  "overlapping_saves = run sample_platform
     [IntervalTick 4900, IntervalTick 4945,
      ExchangeSettled 0 (Fulfilled (Some fresh_data)) 4950 4950,
      ExchangeSettled 1 (Fulfilled (Some newer_data)) 4950 4950,
      DbRunSettled 0 True, DbRunSettled 1 True, DbRunSettled 0 True, DbRunSettled 1 True] booted"

text \<open>A periodic refresh whose DELETE went through and whose INSERT has not settled.\<close>

definition awaiting_insert :: server where
  "awaiting_insert = run sample_platform
     [IntervalTick 4900, ExchangeSettled 0 (Fulfilled (Some fresh_data)) 4901 4901,
      DbRunSettled 0 True] booted"

text \<open>
  The exchange of a refresh has failed when \<^verbatim>\<open>fetch\<close> or \<^verbatim>\<open>resp.json()\<close> threw, or
  when \<^verbatim>\<open>data && data.access_token\<close> is falsy.
\<close>

fun exchange_failed :: "token_data option settled \<Rightarrow> bool" where
  "exchange_failed Rejected = True"
| "exchange_failed (Fulfilled None) = True"
| "exchange_failed (Fulfilled (Some d)) = (str_or (data_access_token d) [] = [])"

text \<open>
  Two sockets at once without a second connect on a connecting socket: the open socket
  errors and is closing, the callback route installs a token and connects, then both sockets
  close.
\<close>

definition two_closes :: server where
  "two_closes = run sample_platform
      [UpstreamOpen 0, UpstreamError 0, AuthCallbackRequest (Some ''code''),
       ExchangeSettled 0 (Fulfilled (Some fresh_data)) 1200 1200,
       DbRunSettled 0 True, DbRunSettled 0 True, UpstreamClose 0, UpstreamClose 1] booted"

text \<open>
  A call of \<^verbatim>\<open>saveTokens\<close> alone on the table whose INSERT is rejected, and one whose
  \<^verbatim>\<open>expires_in\<close> is \<^verbatim>\<open>2^53\<close>, at second 1001.
\<close>

definition insert_rejected_alone :: "tokens_table attempt" where
  "insert_rejected_alone = saveTokens 1000 (Some ''B'') None None True False [saved_row]"

definition large_expiry_save :: "tokens_table attempt" where
  "large_expiry_save = saveTokens 1001 (Some ''B'') None (Some 9007199254740992) True True [saved_row]"

text \<open>The four replies of the subscriber's message handler that do not depend on the message.\<close>

definition ack_reply :: jsval where
  "ack_reply = JObj [(''ok'', JBool True), (''info'', JStr ''Subscription forwarded to Upstox'')]"

definition nack_reply :: jsval where
  "nack_reply = JObj [(''ok'', JBool False), (''error'', JStr ''Upstox WS not connected yet'')]"

definition error_reply :: jsval where
  "error_reply = JObj [(''error'', JStr ''Invalid message format'')]"

definition ltp_failed_reply :: jsval where
  "ltp_failed_reply = JObj [(''type'', JStr ''ltp_response''), (''error'', JStr ''failed'')]"

section \<open>Properties\<close>

subsection \<open>Unfolding and evaluation\<close>

lemmas io_defs = log_info_def logErr_def ws_send_def client_send_def http_send_def

lemmas boot_defs = booted_def init_def boot_state_def saved_row_def loadTokens_def
  connectUpstoxWS_def upstox_open_def start_interval_def sample_url_ok_def

lemmas flow_defs = step_def periodic_check_def refreshAccessToken_def exchange_settled_def
  refresh_on_exchange_def callback_on_exchange_def db_run_settled_def save_on_delete_def
  save_on_insert_def refresh_after_save_def callback_after_save_def refresh_catch_def
  callback_catch_def settle_def after_return_def auth_callback_def upstox_on_close_def
  upstox_on_open_def upstox_on_error_def reconnect_callback_def setTimeout_def clearTimeout_def
  ws_close_def fresh_data_def bound_refresh_token_def save_expires_at_def insert_tokens_def
  delete_tokens_def next_row_id_def sample_platform_def

lemmas text_defs = quoted_def subscribe_X_text_def subscribe_none_text_def subscribe_str_text_def
  ltp_text_def

lemma sample_parse_simps:
  "sample_parse subscribe_X_text = Some subscribe_X"
  "sample_parse subscribe_none_text = Some subscribe_none"
  "sample_parse subscribe_str_text = Some subscribe_str"
  "sample_parse ltp_text = Some ltp_X"
  "sample_parse ''null'' = Some JNull"
  "sample_parse ''hello'' = None"
  by (simp_all add: sample_parse_def text_defs)

subsection \<open>Rounding to a double\<close>

lemma ulp_small: "m < 2 ^ 53 \<Longrightarrow> ulp m = 1"
  by (simp add: ulp.simps)

lemma round_to_double_exact: "\<bar>n\<bar> < 2 ^ 53 \<Longrightarrow> round_to_double n = n"
  by (simp add: round_to_double_def ulp_small Let_def sgn_if)

lemma js_add_exact [simp]: "\<bar>a + b\<bar> < 2 ^ 53 \<Longrightarrow> js_add a b = a + b"
  by (simp add: js_add_def round_to_double_exact)

lemma ulp_pos: "0 < ulp m"
  by (induction m rule: ulp.induct) (subst ulp.simps, simp)

lemma ulp_below: "2 ^ 53 \<le> m \<Longrightarrow> ulp m * 2 ^ 52 \<le> m"
proof (induction m rule: ulp.induct)
  case (1 m)
  show ?case
  proof (cases "m div 2 < 2 ^ 53")
    case True
    with "1.prems" have "ulp m = 2" by (subst ulp.simps) (simp add: ulp_small)
    with "1.prems" show ?thesis by simp
  next
    case False
    with "1.IH" "1.prems" have "ulp (m div 2) * 2 ^ 52 \<le> m div 2" by simp
    moreover have "ulp m = 2 * ulp (m div 2)" using "1.prems" by (subst ulp.simps) simp
    ultimately show ?thesis by simp
  qed
qed

lemma round_to_double_nonpos: "n \<le> 0 \<Longrightarrow> round_to_double n \<le> 0"
  by (simp add: round_to_double_def Let_def sgn_if)

lemma round_to_double_large:
  assumes "2 ^ 53 \<le> n"
  shows "2 ^ 52 \<le> round_to_double n"
proof -
  define m where "m = nat \<bar>n\<bar>"
  define u where "u = ulp m"
  define q where "q = m div u"
  define q' where "q' = (if u < 2 * (m mod u) \<or> (2 * (m mod u) = u \<and> odd q) then Suc q else q)"
  have n: "0 < n" using assms by (rule less_le_trans [rotated]) simp
  have m: "2 ^ 53 \<le> m" using assms n by (simp add: m_def le_nat_iff)
  have u: "0 < u" by (simp add: u_def ulp_pos)
  have "2 ^ 52 * u \<le> m" using ulp_below [OF m] by (simp add: u_def mult.commute)
  then have q: "2 ^ 52 \<le> q"
    using u by (simp add: q_def less_eq_div_iff_mult_less_eq)
  have "q \<le> q'" by (simp add: q'_def)
  moreover have "q' \<le> q' * u" using u by simp
  ultimately have "2 ^ 52 \<le> q' * u" using q by linarith
  then have "int (2 ^ 52) \<le> int (q' * u)" by (rule iffD2 [OF of_nat_le_iff])
  moreover have "round_to_double n = sgn n * int (q' * u)"
    unfolding round_to_double_def Let_def m_def u_def q_def q'_def ..
  ultimately show ?thesis using n by (simp add: sgn_if)
qed

text \<open>
  Comparing a rounded difference with a small bound is comparing the difference itself:
  this is why \<open>init\<close> and \<open>periodic_check\<close> compare the difference of the integers.
\<close>

lemma double_less_iff:
  assumes "\<bar>k\<bar> < 2 ^ 52"
  shows "round_to_double d < k \<longleftrightarrow> d < k"
proof (cases "\<bar>d\<bar> < 2 ^ 53")
  case True
  then show ?thesis by (simp add: round_to_double_exact)
next
  case False
  then consider "2 ^ 53 \<le> d" | "d \<le> - (2 ^ 53)" by linarith
  then show ?thesis
  proof cases
    case 1
    from round_to_double_large [OF 1] assms 1 show ?thesis by auto
  next
    case 2
    have "2 ^ 53 \<le> - d" using 2 by simp
    from round_to_double_large [OF this] have "2 ^ 52 \<le> round_to_double (- d)" .
    moreover have "round_to_double (- d) = - round_to_double d"
      by (simp add: round_to_double_def Let_def sgn_if)
    ultimately show ?thesis using assms 2 by auto
  qed
qed

text \<open>The sample states, field by field.\<close>

lemma booted_fields:
  "upstoxAccessToken booted = ''A''" "upstoxRefreshToken booted = ''R''"
  "tokenExpiresAt booted = 5000" "upstoxWS booted = Some 0" "ws_count booted = 1"
  "ws_ready booted 0 = CONNECTING" "ws_token booted 0 = ''A''" "db booted = [saved_row]"
  "tasks booted = []" "timers booted = []" "reconnectTimer booted = None"
  "interval_on booted" "\<not> exited booted" "frontendClients booted = []"
  "client_out booted = []" "ws_out booted = []"
  by (simp_all add: boot_defs io_defs Let_def)

lemma serving_fields:
  "upstoxWS serving = Some 0" "ws_ready serving 0 = OPEN" "frontendClients serving = [0]"
  "client_ready serving 0 = OPEN" "client_out serving = []" "ws_out serving = []"
  "tasks serving = []" "upstox_open serving" "\<not> exited serving"
  by (simp_all add: serving_def boot_defs io_defs flow_defs client_on_connection_def set_add_def Let_def)

subsection \<open>Refresh triggers\<close>

text \<open>
  Claim C1 says that a refresh in progress makes a later \<^verbatim>\<open>refreshAccessToken\<close> call
  return at once, so that at most one exchange is in flight. The function has one early
  return, for an empty refresh token, and no record of a call in progress. What holds:
  a call of \<^verbatim>\<open>refreshAccessToken\<close>, from \<^verbatim>\<open>init\<close> or from the interval, adds one
  exchange to those in flight whenever a refresh token is held, however many are in flight,
  and adds none otherwise; the periodic check makes that call when \<^verbatim>\<open>tokenExpiresAt\<close> is
  not 0 and less than 120 seconds ahead.
\<close>

theorem refresh_trigger_starts_exchange:
  "exchanges_in_flight (refreshAccessToken InitRefresh s) =
     (if upstoxRefreshToken s = [] then exchanges_in_flight s else Suc (exchanges_in_flight s))
   \<and> exchanges_in_flight (refreshAccessToken TimerRefresh s) =
     (if upstoxRefreshToken s = [] then exchanges_in_flight s else Suc (exchanges_in_flight s))
   \<and> exchanges_in_flight (periodic_check now s) =
     (if tokenExpiresAt s \<noteq> 0 \<and> tokenExpiresAt s - now < 120 \<and> upstoxRefreshToken s \<noteq> []
      then Suc (exchanges_in_flight s) else exchanges_in_flight s)"
  by (simp add: refreshAccessToken_def periodic_check_def exchanges_in_flight_def
      after_return_def io_defs)

text \<open>The periodic check at second 4900 on the started server: one exchange in flight.\<close>

theorem refresh_trigger_starts_exchange_witness:
  "exchanges_in_flight booted = 0 \<and> exchanges_in_flight (periodic_check 4900 booted) = 1"
  using refresh_trigger_starts_exchange [of booted 4900]
  by (simp add: booted_fields exchanges_in_flight_def)

text \<open>
  Two ticks of the interval, 45 seconds apart, the first exchange not yet answered: two
  exchanges in flight.
\<close>

theorem refresh_two_exchanges_in_flight:
  "\<not> exchanges_in_flight (run sample_platform [IntervalTick 4900, IntervalTick 4945] booted) \<le> 1"
  by (simp add: boot_defs io_defs step_def periodic_check_def refreshAccessToken_def
      exchanges_in_flight_def Let_def)

subsection \<open>Connecting\<close>

text \<open>
  Claim C2 says that \<^verbatim>\<open>connectUpstoxWS\<close> does nothing while the upstream socket is
  connecting or open, so that at most one socket is connecting or open. The guard at line 76,
  under the comment \<^verbatim>\<open>Prevent multiple simultaneous connect attempts\<close>, tests
  \<^verbatim>\<open>readyState === WebSocket.OPEN\<close> only. On the started server, whose socket 0 is
  connecting, a second call returns having made socket 1 and left socket 0 as it was: two
  sockets are connecting.
\<close>

theorem connect_while_connecting_opens_second_socket:
  "live_sockets booted = [0] \<and> ws_ready booted 0 = CONNECTING
   \<and> \<not> thrown (connectUpstoxWS sample_url_ok booted)
   \<and> live_sockets (state_of (connectUpstoxWS sample_url_ok booted)) = [0, 1]
   \<and> ws_ready (state_of (connectUpstoxWS sample_url_ok booted)) 0 = CONNECTING
   \<and> ws_ready (state_of (connectUpstoxWS sample_url_ok booted)) 1 = CONNECTING
   \<and> upstoxWS (state_of (connectUpstoxWS sample_url_ok booted)) = Some 1"
  by (simp add: boot_defs io_defs Let_def live_sockets_def upt_rec)

subsection \<open>Reconnecting\<close>

lemma filter_upt_append_timer:
  "filter (\<lambda>t. snd ((ts @ [(d, Pending)]) ! t) = Pending) [0..<length ts] =
   filter (\<lambda>t. snd (ts ! t) = Pending) [0..<length ts]"
  by (rule filter_cong) (simp_all add: nth_append)

lemma pending_timers_append:
  "pending_timers (s\<lparr>timers := timers s @ [(d, Pending)]\<rparr>) = pending_timers s @ [length (timers s)]"
  by (simp add: pending_timers_def filter_upt_append_timer)

lemma cleared_not_pending: "t \<notin> set (pending_timers (clearTimeout t s))"
  by (simp add: pending_timers_def clearTimeout_def)

text \<open>
  Claim C3 says that the close handler clears a pending reconnect timer before it sets one,
  so that a second close event leaves one timer pending. The handler (lines 110 to 117) only
  sets a timer; the clearing is in \<^verbatim>\<open>connectUpstoxWS\<close> (lines 84 to 88). What holds:
  every close event sets exactly one timer, of 5000 milliseconds, and stores its handle in
  \<^verbatim>\<open>reconnectTimer\<close>, clearing none, so the timers pending before stay pending; and a call
  of \<^verbatim>\<open>connectUpstoxWS\<close> that passes its two guards clears the timer whose handle is
  stored and stores none, before the socket constructor runs; when the constructor accepts
  the URL, the call returns with one socket more.
\<close>

theorem close_sets_one_timer_connect_clears_it:
  "timers (upstox_on_close s) = timers s @ [(5000, Pending)]
   \<and> reconnectTimer (upstox_on_close s) = Some (length (timers s))
   \<and> pending_timers (upstox_on_close s) = pending_timers s @ [length (timers s)]
   \<and> (upstoxAccessToken s \<noteq> [] \<and> \<not> upstox_open s \<and> reconnectTimer s = Some t \<longrightarrow>
        reconnectTimer (state_of (connectUpstoxWS url_ok s)) = None
        \<and> t \<notin> set (pending_timers (state_of (connectUpstoxWS url_ok s)))
        \<and> (url_ok (upstoxAccessToken s) \<longrightarrow>
             \<not> thrown (connectUpstoxWS url_ok s)
             \<and> ws_count (state_of (connectUpstoxWS url_ok s)) = Suc (ws_count s)))"
proof -
  let ?s0 = "s\<lparr>logs := logs s @ [Info ''Upstox WS closed:'']\<rparr>"
  have close_eq: "upstox_on_close s =
      ?s0\<lparr>timers := timers s @ [(5000, Pending)], reconnectTimer := Some (length (timers s))\<rparr>"
    by (simp add: upstox_on_close_def setTimeout_def log_info_def)
  have p: "pending_timers (upstox_on_close s) = pending_timers s @ [length (timers s)]"
    unfolding close_eq using pending_timers_append [of ?s0 5000]
    by (simp add: pending_timers_def)
  have c: "reconnectTimer (state_of (connectUpstoxWS url_ok s)) = None
        \<and> t \<notin> set (pending_timers (state_of (connectUpstoxWS url_ok s)))
        \<and> (url_ok (upstoxAccessToken s) \<longrightarrow>
             \<not> thrown (connectUpstoxWS url_ok s)
             \<and> ws_count (state_of (connectUpstoxWS url_ok s)) = Suc (ws_count s))"
    if "upstoxAccessToken s \<noteq> []" "\<not> upstox_open s" "reconnectTimer s = Some t"
  proof -
    have "timers (state_of (connectUpstoxWS url_ok s)) = timers (clearTimeout t s)"
      using that by (simp add: connectUpstoxWS_def Let_def log_info_def clearTimeout_def)
    then have "pending_timers (state_of (connectUpstoxWS url_ok s)) = pending_timers (clearTimeout t s)"
      by (simp add: pending_timers_def)
    then show ?thesis
      using that cleared_not_pending [of t s]
      by (simp add: connectUpstoxWS_def Let_def log_info_def clearTimeout_def)
  qed
  show ?thesis using close_eq p c by simp
qed

text \<open>
  The started server after its socket has closed: timer 0 is pending and stored, the URL of
  token A is accepted, and the next connect clears the timer and makes socket 1.
\<close>

theorem close_sets_one_timer_connect_clears_it_witness:
  "upstoxAccessToken (upstox_on_close booted) \<noteq> [] \<and> \<not> upstox_open (upstox_on_close booted)
   \<and> reconnectTimer (upstox_on_close booted) = Some 0
   \<and> sample_url_ok (upstoxAccessToken (upstox_on_close booted))
   \<and> pending_timers (upstox_on_close booted) = [0]
   \<and> reconnectTimer (state_of (connectUpstoxWS sample_url_ok (upstox_on_close booted))) = None
   \<and> 0 \<notin> set (pending_timers (state_of (connectUpstoxWS sample_url_ok (upstox_on_close booted))))
   \<and> ws_count (state_of (connectUpstoxWS sample_url_ok (upstox_on_close booted))) = 2"
  using close_sets_one_timer_connect_clears_it [of booted 0 sample_url_ok]
        close_sets_one_timer_connect_clears_it [of "upstox_on_close booted" 0 sample_url_ok]
  by (simp add: booted_fields pending_timers_def upstox_open_def upstox_on_close_def
      setTimeout_def log_info_def sample_url_ok_def)

text \<open>
  Two close events with no timer fired in between: socket 0 is closing when the callback
  route connects socket 1, then both close. Timers 0 and 1 are pending, and only the handle
  of timer 1 is stored.
\<close>

theorem second_close_second_pending_timer:
  "pending_timers two_closes = [0, 1] \<and> reconnectTimer two_closes = Some 1"
  by (simp add: two_closes_def boot_defs io_defs flow_defs Let_def pending_timers_def upt_rec)

subsection \<open>Saving before connecting\<close>

lemma connect_opens_at_most_one:
  "db (state_of (connectUpstoxWS url_ok u)) = db u
   \<and> (ws_count (state_of (connectUpstoxWS url_ok u)) = ws_count u
      \<or> ws_count (state_of (connectUpstoxWS url_ok u)) = Suc (ws_count u)
        \<and> ws_token (state_of (connectUpstoxWS url_ok u)) (ws_count u) = upstoxAccessToken u)"
  by (simp add: connectUpstoxWS_def Let_def log_info_def clearTimeout_def split: option.splits)

lemma end_of_call_fields:
  "db (settle i c s) = db s" "ws_count (settle i c s) = ws_count s"
  "ws_token (settle i c s) = ws_token s"
  "db (refresh_catch i c s) = db s" "ws_count (refresh_catch i c s) = ws_count s"
  "ws_token (refresh_catch i c s) = ws_token s"
  "db (callback_catch i s) = db s" "ws_count (callback_catch i s) = ws_count s"
  "ws_token (callback_catch i s) = ws_token s"
  by (simp_all add: refresh_catch_def callback_catch_def settle_def after_return_def io_defs
      split: caller.splits)

lemma after_save_opens_at_most_one:
  "db (refresh_after_save url_ok i c u) = db u
   \<and> (ws_count (refresh_after_save url_ok i c u) = ws_count u
      \<or> ws_count (refresh_after_save url_ok i c u) = Suc (ws_count u)
        \<and> ws_token (refresh_after_save url_ok i c u) (ws_count u) = upstoxAccessToken u)"
  "db (callback_after_save url_ok i u) = db u
   \<and> (ws_count (callback_after_save url_ok i u) = ws_count u
      \<or> ws_count (callback_after_save url_ok i u) = Suc (ws_count u)
        \<and> ws_token (callback_after_save url_ok i u) (ws_count u) = upstoxAccessToken u)"
proof -
  let ?r = "log_info ''Refreshed Upstox access token and saved to DB'' u"
  let ?k = "log_info ''Access token saved to DB via /auth/callback'' u"
  have l: "db ?r = db u" "ws_count ?r = ws_count u" "upstoxAccessToken ?r = upstoxAccessToken u"
    "db ?k = db u" "ws_count ?k = ws_count u" "upstoxAccessToken ?k = upstoxAccessToken u"
    by (simp_all add: log_info_def)
  show "db (refresh_after_save url_ok i c u) = db u
   \<and> (ws_count (refresh_after_save url_ok i c u) = ws_count u
      \<or> ws_count (refresh_after_save url_ok i c u) = Suc (ws_count u)
        \<and> ws_token (refresh_after_save url_ok i c u) (ws_count u) = upstoxAccessToken u)"
    using connect_opens_at_most_one [of url_ok ?r] l
    by (cases "connectUpstoxWS url_ok ?r")
       (auto simp add: refresh_after_save_def Let_def end_of_call_fields)
  show "db (callback_after_save url_ok i u) = db u
   \<and> (ws_count (callback_after_save url_ok i u) = ws_count u
      \<or> ws_count (callback_after_save url_ok i u) = Suc (ws_count u)
        \<and> ws_token (callback_after_save url_ok i u) (ws_count u) = upstoxAccessToken u)"
    using connect_opens_at_most_one [of url_ok ?k] l
    by (cases "connectUpstoxWS url_ok ?k")
       (auto simp add: callback_after_save_def Let_def end_of_call_fields http_send_def)
qed

text \<open>
  Claim C4 says that a new credential is saved before any connect attempt uses it. Both
  \<^verbatim>\<open>refreshAccessToken\<close> and the callback route assign the new token to
  \<^verbatim>\<open>upstoxAccessToken\<close> first, then await \<^verbatim>\<open>saveTokens\<close>, then connect. What holds,
  for the connect made by the replacing call itself: the steps of the call that come before
  the end of its save (the exchange settled, the DELETE settled) and a rejected INSERT open
  no socket; the step in which the INSERT settles puts the row into the table and opens at
  most one socket, with the token then held in \<^verbatim>\<open>upstoxAccessToken\<close>.
\<close>

theorem own_connect_follows_save:
  "ws_count (refresh_on_exchange i c outcome now now_save s) = ws_count s
   \<and> ws_count (callback_on_exchange i outcome now now_save s) = ws_count s
   \<and> ws_count (save_on_delete i ok s) = ws_count s
   \<and> ws_count (save_on_insert url_ok i False s) = ws_count s
   \<and> (tasks s ! i = AwaitInsert c a r e \<longrightarrow>
        db (save_on_insert url_ok i True s) =
          db s @ [\<lparr>row_id = next_row_id (db s), access_token = a, refresh_token = r, expires_at = e\<rparr>]
        \<and> (ws_count (save_on_insert url_ok i True s) = ws_count s
           \<or> ws_count (save_on_insert url_ok i True s) = Suc (ws_count s)
             \<and> ws_token (save_on_insert url_ok i True s) (ws_count s) = upstoxAccessToken s))"
proof -
  have 1: "ws_count (refresh_on_exchange i c outcome now now_save s) = ws_count s"
    by (simp add: refresh_on_exchange_def refresh_catch_def settle_def after_return_def
        io_defs Let_def split: settled.splits option.splits caller.splits)
  have 2: "ws_count (callback_on_exchange i outcome now now_save s) = ws_count s"
    by (simp add: callback_on_exchange_def callback_catch_def settle_def after_return_def
        io_defs Let_def split: settled.splits option.splits)
  have 3: "ws_count (save_on_delete i ok s) = ws_count s"
    by (simp add: save_on_delete_def end_of_call_fields split: task.splits)
  have 4: "ws_count (save_on_insert url_ok i False s) = ws_count s"
    by (simp add: save_on_insert_def end_of_call_fields split: task.splits)
  have 5: "db (save_on_insert url_ok i True s) =
          db s @ [\<lparr>row_id = next_row_id (db s), access_token = a, refresh_token = r, expires_at = e\<rparr>]
        \<and> (ws_count (save_on_insert url_ok i True s) = ws_count s
           \<or> ws_count (save_on_insert url_ok i True s) = Suc (ws_count s)
             \<and> ws_token (save_on_insert url_ok i True s) (ws_count s) = upstoxAccessToken s)"
    if t: "tasks s ! i = AwaitInsert c a r e"
  proof -
    let ?s1 = "s\<lparr>db := insert_tokens a r e (db s)\<rparr>"
    show ?thesis
      using t after_save_opens_at_most_one(1) [of url_ok i c ?s1]
        after_save_opens_at_most_one(2) [of url_ok i ?s1]
      by (cases "c = AuthCallback") (simp_all add: save_on_insert_def insert_tokens_def Let_def)
  qed
  show ?thesis using 1 2 3 4 5 by blast
qed

text \<open>
  A periodic refresh waiting for its INSERT, the upstream socket still connecting: when the
  INSERT settles, the table holds the old row no more and the new one, and socket 1 is made
  with the new token.
\<close>

theorem own_connect_follows_save_witness:
  "tasks awaiting_insert ! 0 = AwaitInsert TimerRefresh (Some ''B'') (Some ''R'') 8501
   \<and> db awaiting_insert = [] \<and> ws_count awaiting_insert = 1
   \<and> db (save_on_insert sample_url_ok 0 True awaiting_insert) =
       [\<lparr>row_id = 1, access_token = Some ''B'', refresh_token = Some ''R'', expires_at = 8501\<rparr>]
   \<and> ws_count (save_on_insert sample_url_ok 0 True awaiting_insert) = 2
   \<and> ws_token (save_on_insert sample_url_ok 0 True awaiting_insert) 1 = ''B''"
proof -
  have f: "tasks awaiting_insert ! 0 = AwaitInsert TimerRefresh (Some ''B'') (Some ''R'') 8501"
    "db awaiting_insert = []" "ws_count awaiting_insert = 1"
    "upstoxAccessToken awaiting_insert = ''B''"
    by (simp_all add: awaiting_insert_def boot_defs io_defs flow_defs Let_def)
  have n: "ws_count (save_on_insert sample_url_ok 0 True awaiting_insert) \<noteq> 1"
    by (simp add: awaiting_insert_def boot_defs io_defs flow_defs Let_def)
  show ?thesis
    using own_connect_follows_save
      [of 0 TimerRefresh Rejected 0 0 awaiting_insert True sample_url_ok
          "Some ''B''" "Some ''R''" 8501] f n
    by (simp add: next_row_id_def)
qed

text \<open>
  A connect made by another callback during the save: the reconnect timer fires while
  \<^verbatim>\<open>saveTokens\<close> waits for its DELETE. Socket 1 is made with the new token B, which no
  row of the table holds.
\<close>

theorem reconnect_during_save_uses_unsaved_token:
  "tasks mid_save = [AwaitDelete TimerRefresh (Some ''B'') (Some ''R'') 8501]
   \<and> ws_count mid_save = 2 \<and> ws_ready mid_save 1 = CONNECTING \<and> ws_token mid_save 1 = ''B''
   \<and> db mid_save = [saved_row] \<and> \<not> durable mid_save ''B''"
  by (simp add: mid_save_def boot_defs io_defs flow_defs Let_def durable_def)

subsection \<open>A refresh that fails\<close>

text \<open>
  Claim C5 says that a refresh that fails leaves the credential in memory and on disk as it
  was and returns an error that tells the cause. \<^verbatim>\<open>refreshAccessToken\<close> returns no value
  on any path. What holds: when the exchange of a refresh fails (\<^verbatim>\<open>fetch\<close> or
  \<^verbatim>\<open>resp.json()\<close> throws, or the response holds no access token), the three variables of
  the credential and the table are as before, no exchange is started and no socket is made,
  one error line is logged, and the call ends, its promise fulfilled with
  \<^verbatim>\<open>undefined\<close>.
\<close>

theorem failed_exchange_keeps_credential:
  "exchange_failed outcome \<Longrightarrow>
   (let s' = refresh_on_exchange i c outcome now now_save s in
      upstoxAccessToken s' = upstoxAccessToken s
      \<and> upstoxRefreshToken s' = upstoxRefreshToken s
      \<and> tokenExpiresAt s' = tokenExpiresAt s
      \<and> db s' = db s
      \<and> tasks s' = (tasks s)[i := Settled JUndefined]
      \<and> (\<exists>cause. logs s' = logs s @ [Err cause])
      \<and> ws_count s' = ws_count s)"
  by (cases outcome rule: exchange_failed.cases)
     (auto simp add: refresh_on_exchange_def refresh_catch_def settle_def after_return_def
        io_defs Let_def split: caller.splits option.splits)

text \<open>The exchange of a periodic refresh rejected on the started server.\<close>

theorem failed_exchange_keeps_credential_witness:
  "exchange_failed Rejected
   \<and> tasks (periodic_check 4900 booted) = [AwaitExchange TimerRefresh]
   \<and> upstoxAccessToken (refresh_on_exchange 0 TimerRefresh Rejected 4901 4901 (periodic_check 4900 booted)) = ''A''
   \<and> db (refresh_on_exchange 0 TimerRefresh Rejected 4901 4901 (periodic_check 4900 booted)) = [saved_row]
   \<and> tasks (refresh_on_exchange 0 TimerRefresh Rejected 4901 4901 (periodic_check 4900 booted)) =
       [Settled JUndefined]"
  using failed_exchange_keeps_credential
    [of Rejected 0 TimerRefresh 4901 4901 "periodic_check 4900 booted"]
  by (simp add: Let_def periodic_check_def refreshAccessToken_def booted_fields)

text \<open>
  A rejected exchange ends the call as a completed refresh does, with \<^verbatim>\<open>undefined\<close> and
  no error value. And a refresh that fails in its save, the INSERT rejected after the DELETE:
  the \<^verbatim>\<open>catch\<close> logs the error, the token in memory is the new one, and the table is
  empty.
\<close>

theorem failed_refresh_returns_nothing_and_may_change_credential:
  "tasks rejected_refresh = [Settled JUndefined] \<and> tasks completed_refresh = [Settled JUndefined]
   \<and> upstoxAccessToken booted = ''A'' \<and> db booted = [saved_row]
   \<and> tasks failed_insert = [Settled JUndefined]
   \<and> logs failed_insert = logs booted @ [Err ''Error refreshing access token:'']
   \<and> upstoxAccessToken failed_insert = ''B'' \<and> db failed_insert = []"
  by (simp add: rejected_refresh_def completed_refresh_def failed_insert_def boot_defs io_defs
      flow_defs Let_def)

subsection \<open>Subscribing\<close>

text \<open>
  Claim C6: a subscriber's message that parses to \<^verbatim>\<open>{action: "subscribe", symbols: ["X"]}\<close>,
  handled while \<^verbatim>\<open>upstoxWS\<close> is open, sends one subscribe command on that socket and one
  acknowledgement with \<^verbatim>\<open>ok: true\<close> to the subscriber; handled while it is not open, it
  sends nothing upstream and one acknowledgement with \<^verbatim>\<open>ok: false\<close> to the subscriber.
  In both cases nothing else in the state changes: no task, no timer, nothing kept for later.
\<close>

theorem subscribe_forwarded_or_refused:
  "parse msg = Some parsed \<Longrightarrow>
   get_prop parsed ''action'' = Some (JStr ''subscribe'') \<Longrightarrow>
   get_prop parsed ''symbols'' = Some (JArr [JStr x]) \<Longrightarrow>
   (upstoxWS s = Some w \<and> ws_ready s w = OPEN \<longrightarrow>
      client_on_message parse encodable c msg s =
        s\<lparr>ws_out := ws_out s @
             [(w, JObj [(''action'', JStr ''subscribe''), (''symbols'', JArr [JStr x])])],
          client_out := client_out s @ [(c, ack_reply)]\<rparr>)
   \<and> (\<not> upstox_open s \<longrightarrow>
      client_on_message parse encodable c msg s = s\<lparr>client_out := client_out s @ [(c, nack_reply)]\<rparr>)"
  by (simp add: client_on_message_def forwardSubscriptionToUpstox_def upstox_open_def Let_def
      io_defs ack_reply_def nack_reply_def split: option.splits)

text \<open>
  The sample message on the serving state, upstream open, and on the started state, upstream
  still connecting.
\<close>

theorem subscribe_forwarded_or_refused_witness:
  "sample_parse subscribe_X_text = Some subscribe_X
   \<and> get_prop subscribe_X ''action'' = Some (JStr ''subscribe'')
   \<and> get_prop subscribe_X ''symbols'' = Some (JArr [JStr ''X''])
   \<and> upstoxWS serving = Some 0 \<and> ws_ready serving 0 = OPEN
   \<and> ws_out (client_on_message sample_parse (\<lambda>_. True) 0 subscribe_X_text serving) = [(0, subscribe_X)]
   \<and> client_out (client_on_message sample_parse (\<lambda>_. True) 0 subscribe_X_text serving) = [(0, ack_reply)]
   \<and> \<not> upstox_open booted
   \<and> ws_out (client_on_message sample_parse (\<lambda>_. True) 0 subscribe_X_text booted) = []
   \<and> client_out (client_on_message sample_parse (\<lambda>_. True) 0 subscribe_X_text booted) = [(0, nack_reply)]"
proof -
  have h: "sample_parse subscribe_X_text = Some subscribe_X"
    "get_prop subscribe_X ''action'' = Some (JStr ''subscribe'')"
    "get_prop subscribe_X ''symbols'' = Some (JArr [JStr ''X''])"
    by (simp_all add: sample_parse_simps subscribe_X_def)
  have b: "\<not> upstox_open booted"
    by (simp add: upstox_open_def booted_fields)
  show ?thesis
    using subscribe_forwarded_or_refused
            [of sample_parse subscribe_X_text subscribe_X "''X''" serving 0 "\<lambda>_. True" 0]
          subscribe_forwarded_or_refused
            [of sample_parse subscribe_X_text subscribe_X "''X''" booted 0 "\<lambda>_. True" 0] h b
    by (simp add: serving_fields booted_fields subscribe_X_def)
qed

subsection \<open>Relaying upstream messages\<close>

lemma broadcast_eq:
  "broadcast p cs s =
     s\<lparr>client_out := client_out s @ map (\<lambda>c. (c, p)) (filter (\<lambda>c. client_ready s c = OPEN) cs)\<rparr>"
  by (induction cs arbitrary: s) (simp_all add: client_send_def)

text \<open>
  Claim C7 says that every upstream message goes to every subscriber whose socket is open,
  wrapped with the tag \<^verbatim>\<open>source: "upstream"\<close>. The tag the handler writes (line 102) is
  \<^verbatim>\<open>source: "upstox"\<close>. What holds: every upstream message is sent once to each member
  of \<^verbatim>\<open>frontendClients\<close> whose socket is open, in the order of the set, as
  \<^verbatim>\<open>{source: "upstox", data: d}\<close>, where \<open>d\<close> is the parsed value when the text parses
  and the text itself when it does not; nothing else in the state changes, and no error is
  logged.
\<close>

theorem upstream_message_relayed:
  "upstox_on_message parse message s =
     s\<lparr>client_out := client_out s @
         map (\<lambda>c. (c, JObj [(''source'', JStr ''upstox''),
                             (''data'', case parse message of Some v \<Rightarrow> v | None \<Rightarrow> JStr message)]))
           (filter (\<lambda>c. client_ready s c = OPEN) (frontendClients s))\<rparr>"
  by (simp add: upstox_on_message_def Let_def broadcast_eq)

text \<open>A text that does not parse, relayed to the one subscriber of the serving state.\<close>

theorem upstream_message_relayed_witness:
  "client_out (upstox_on_message sample_parse ''hello'' serving) =
     [(0, JObj [(''source'', JStr ''upstox''), (''data'', JStr ''hello'')])]"
  using upstream_message_relayed [of sample_parse "''hello''" serving]
  by (simp add: serving_fields sample_parse_simps)

text \<open>The same message through the event loop: the wrapper is not the one tagged upstream.\<close>

theorem upstream_message_tag_is_upstox:
  "client_out (step sample_platform (UpstreamMessage 0 ''hello'') serving) \<noteq>
     [(0, JObj [(''source'', JStr ''upstream''), (''data'', JStr ''hello'')])]"
  by (simp add: serving_def boot_defs io_defs flow_defs client_on_connection_def
      set_add_def Let_def upstox_on_message_def sample_parse_simps)

subsection \<open>Replies to subscribers\<close>

lemma forward_keeps_subscribers:
  "forwardSubscriptionToUpstox v s = (ok, s1) \<Longrightarrow>
     client_out s1 = client_out s \<and> tasks s1 = tasks s \<and> frontendClients s1 = frontendClients s
     \<and> client_ready s1 = client_ready s \<and> logs s1 = logs s"
  by (auto simp add: forwardSubscriptionToUpstox_def Let_def ws_send_def
      split: if_splits option.splits)

lemma one_reply_or_one_task:
  "frontendClients (client_on_message parse encodable c msg s) = frontendClients s
   \<and> client_ready (client_on_message parse encodable c msg s) = client_ready s
   \<and> ((\<exists>reply. client_out (client_on_message parse encodable c msg s) = client_out s @ [(c, reply)]
          \<and> tasks (client_on_message parse encodable c msg s) = tasks s)
      \<or> (\<exists>symbol. client_out (client_on_message parse encodable c msg s) = client_out s
          \<and> tasks (client_on_message parse encodable c msg s) = tasks s @ [AwaitLtp c symbol]))"
proof -
  have inv: "client_out (invalid_message c s) = client_out s @ [(c, error_reply)]"
    "tasks (invalid_message c s) = tasks s"
    "frontendClients (invalid_message c s) = frontendClients s"
    "client_ready (invalid_message c s) = client_ready s"
    by (simp_all add: invalid_message_def io_defs error_reply_def)
  show ?thesis
  proof (cases "parse msg")
    case None
    then show ?thesis by (simp add: client_on_message_def inv)
  next
    case (Some parsed)
    note p = this
    show ?thesis
    proof (cases "get_prop parsed ''action''")
      case None
      with p show ?thesis by (simp add: client_on_message_def inv)
    next
      case (Some action)
      let ?symbols = "case get_prop parsed ''symbols'' of Some v \<Rightarrow> v | None \<Rightarrow> JUndefined"
      let ?symbol = "case get_prop parsed ''symbol'' of Some v \<Rightarrow> v | None \<Rightarrow> JUndefined"
      consider (sub) "action = JStr ''subscribe'' \<and> isArray ?symbols"
        | (ltp) "\<not> (action = JStr ''subscribe'' \<and> isArray ?symbols)"
                "action = JStr ''ltp'' \<and> truthy ?symbol"
        | (echo) "\<not> (action = JStr ''subscribe'' \<and> isArray ?symbols)"
                 "\<not> (action = JStr ''ltp'' \<and> truthy ?symbol)"
        by blast
      then show ?thesis
      proof cases
        case sub
        obtain ok s1 where f: "forwardSubscriptionToUpstox ?symbols s = (ok, s1)"
          by (cases "forwardSubscriptionToUpstox ?symbols s")
        from forward_keeps_subscribers [OF f] f sub Some p
        show ?thesis
          by (cases ok) (simp_all add: client_on_message_def Let_def client_send_def)
      next
        case ltp
        with Some p show ?thesis
          by (auto simp add: client_on_message_def Let_def client_send_def)
      next
        case echo
        with Some p show ?thesis
          by (auto simp add: client_on_message_def Let_def client_send_def)
      qed
    qed
  qed
qed

text \<open>
  Claim C8: for every message of a subscriber, whatever the parser makes of it, the handler
  leaves the set of subscribers and their sockets as they are and either sends exactly one
  reply, to that subscriber and to no other, or suspends one call and sends nothing yet.
  Which of the two, and which reply, is fixed by the message, and nothing else in the state
  changes but the log line of the error reply:
  \<^item> a text that does not parse, or that parses to \<^verbatim>\<open>null\<close>, gets the error reply;
  \<^item> a subscribe command with an array gets the acknowledgement with \<^verbatim>\<open>ok: true\<close>, after
    one command sent upstream, when the array is not empty and \<^verbatim>\<open>upstoxWS\<close> is open, and
    the one with \<^verbatim>\<open>ok: false\<close> otherwise;
  \<^item> a quote request with a truthy symbol suspends one call, which sends exactly one reply
    to that subscriber when its \<^verbatim>\<open>fetch\<close> settles: the quote when fulfilled, the failure
    reply when rejected; a symbol that \<^verbatim>\<open>encodeURIComponent\<close> refuses gets the failure
    reply at once;
  \<^item> every other parsed message is echoed.
\<close>

theorem subscriber_gets_one_reply:
  "(parse msg = None \<or> (\<exists>p. parse msg = Some p \<and> get_prop p ''action'' = None) \<longrightarrow>
      client_on_message parse encodable c msg s =
        s\<lparr>client_out := client_out s @ [(c, error_reply)],
          logs := logs s @ [Err ''Invalid message from frontend:'']\<rparr>)
   \<and> (parse msg = Some parsed \<and> get_prop parsed ''action'' = Some (JStr ''subscribe'')
        \<and> get_prop parsed ''symbols'' = Some (JArr syms) \<longrightarrow>
        (syms \<noteq> [] \<and> upstoxWS s = Some w \<and> ws_ready s w = OPEN \<longrightarrow>
           client_on_message parse encodable c msg s =
             s\<lparr>ws_out := ws_out s @
                  [(w, JObj [(''action'', JStr ''subscribe''), (''symbols'', JArr syms)])],
               client_out := client_out s @ [(c, ack_reply)]\<rparr>)
        \<and> (syms = [] \<or> \<not> upstox_open s \<longrightarrow>
           client_on_message parse encodable c msg s =
             s\<lparr>client_out := client_out s @ [(c, nack_reply)]\<rparr>))
   \<and> (parse msg = Some parsed \<and> get_prop parsed ''action'' = Some (JStr ''ltp'')
        \<and> get_prop parsed ''symbol'' = Some symbol \<and> truthy symbol \<longrightarrow>
        client_on_message parse encodable c msg s =
          (if encodable symbol then s\<lparr>tasks := tasks s @ [AwaitLtp c symbol]\<rparr>
           else s\<lparr>client_out := client_out s @ [(c, ltp_failed_reply)]\<rparr>))
   \<and> (tasks u ! i = AwaitLtp c symbol \<longrightarrow>
        ltp_on_settled i (Fulfilled j) u =
          u\<lparr>client_out := client_out u @
               [(c, JObj [(''type'', JStr ''ltp_response''), (''symbol'', symbol), (''data'', j)])],
            tasks := (tasks u)[i := Settled JUndefined]\<rparr>
        \<and> ltp_on_settled i Rejected u =
          u\<lparr>client_out := client_out u @ [(c, ltp_failed_reply)],
            tasks := (tasks u)[i := Settled JUndefined]\<rparr>)
   \<and> (parse msg = Some parsed \<and> get_prop parsed ''action'' = Some action
        \<and> get_prop parsed ''symbols'' = Some sy \<and> get_prop parsed ''symbol'' = Some sm
        \<and> \<not> (action = JStr ''subscribe'' \<and> isArray sy) \<and> \<not> (action = JStr ''ltp'' \<and> truthy sm) \<longrightarrow>
        client_on_message parse encodable c msg s =
          s\<lparr>client_out := client_out s @ [(c, JObj [(''echo'', parsed)])]\<rparr>)
   \<and> frontendClients (client_on_message parse encodable c msg s) = frontendClients s
   \<and> client_ready (client_on_message parse encodable c msg s) = client_ready s
   \<and> ((\<exists>reply. client_out (client_on_message parse encodable c msg s) = client_out s @ [(c, reply)]
          \<and> tasks (client_on_message parse encodable c msg s) = tasks s)
      \<or> (\<exists>symbol. client_out (client_on_message parse encodable c msg s) = client_out s
          \<and> tasks (client_on_message parse encodable c msg s) = tasks s @ [AwaitLtp c symbol]))"
proof -
  have E: "client_on_message parse encodable c msg s =
        s\<lparr>client_out := client_out s @ [(c, error_reply)],
          logs := logs s @ [Err ''Invalid message from frontend:'']\<rparr>"
    if "parse msg = None \<or> (\<exists>p. parse msg = Some p \<and> get_prop p ''action'' = None)"
    using that
    by (auto simp add: client_on_message_def invalid_message_def io_defs error_reply_def)
  have S1: "client_on_message parse encodable c msg s =
             s\<lparr>ws_out := ws_out s @
                  [(w, JObj [(''action'', JStr ''subscribe''), (''symbols'', JArr syms)])],
               client_out := client_out s @ [(c, ack_reply)]\<rparr>"
    if "parse msg = Some parsed" "get_prop parsed ''action'' = Some (JStr ''subscribe'')"
       "get_prop parsed ''symbols'' = Some (JArr syms)"
       "syms \<noteq> []" "upstoxWS s = Some w" "ws_ready s w = OPEN"
    using that
    by (simp add: client_on_message_def forwardSubscriptionToUpstox_def Let_def io_defs
        ack_reply_def)
  have S2: "client_on_message parse encodable c msg s =
             s\<lparr>client_out := client_out s @ [(c, nack_reply)]\<rparr>"
    if "parse msg = Some parsed" "get_prop parsed ''action'' = Some (JStr ''subscribe'')"
       "get_prop parsed ''symbols'' = Some (JArr syms)" "syms = [] \<or> \<not> upstox_open s"
    using that
    by (auto simp add: client_on_message_def forwardSubscriptionToUpstox_def upstox_open_def
        Let_def io_defs nack_reply_def split: option.splits)
  have L: "client_on_message parse encodable c msg s =
          (if encodable symbol then s\<lparr>tasks := tasks s @ [AwaitLtp c symbol]\<rparr>
           else s\<lparr>client_out := client_out s @ [(c, ltp_failed_reply)]\<rparr>)"
    if "parse msg = Some parsed" "get_prop parsed ''action'' = Some (JStr ''ltp'')"
       "get_prop parsed ''symbol'' = Some symbol" "truthy symbol"
    using that
    by (simp add: client_on_message_def Let_def client_send_def ltp_failed_reply_def)
  have T: "ltp_on_settled i (Fulfilled j) u =
          u\<lparr>client_out := client_out u @
               [(c, JObj [(''type'', JStr ''ltp_response''), (''symbol'', symbol), (''data'', j)])],
            tasks := (tasks u)[i := Settled JUndefined]\<rparr>
        \<and> ltp_on_settled i Rejected u =
          u\<lparr>client_out := client_out u @ [(c, ltp_failed_reply)],
            tasks := (tasks u)[i := Settled JUndefined]\<rparr>"
    if "tasks u ! i = AwaitLtp c symbol"
    using that by (simp add: ltp_on_settled_def Let_def client_send_def ltp_failed_reply_def)
  have O: "client_on_message parse encodable c msg s =
          s\<lparr>client_out := client_out s @ [(c, JObj [(''echo'', parsed)])]\<rparr>"
    if "parse msg = Some parsed" "get_prop parsed ''action'' = Some action"
       "get_prop parsed ''symbols'' = Some sy" "get_prop parsed ''symbol'' = Some sm"
       "\<not> (action = JStr ''subscribe'' \<and> isArray sy)" "\<not> (action = JStr ''ltp'' \<and> truthy sm)"
    using that by (auto simp add: client_on_message_def Let_def client_send_def)
  show ?thesis
    using E S1 S2 L T O one_reply_or_one_task [of parse encodable c msg s] by blast
qed

text \<open>
  On the serving state: a text that does not parse; the subscribe command, upstream open;
  the same with an empty array; the quote request, answered when its \<^verbatim>\<open>fetch\<close> is
  rejected; and a subscribe command whose symbols are a string, echoed.
\<close>

theorem subscriber_gets_one_reply_witness:
  "sample_parse ''hello'' = None
   \<and> client_out (client_on_message sample_parse (\<lambda>_. True) 0 ''hello'' serving) = [(0, error_reply)]
   \<and> client_ready (client_on_message sample_parse (\<lambda>_. True) 0 ''hello'' serving) 0 = OPEN
   \<and> sample_parse subscribe_X_text = Some subscribe_X
   \<and> client_out (client_on_message sample_parse (\<lambda>_. True) 0 subscribe_X_text serving) = [(0, ack_reply)]
   \<and> ws_out (client_on_message sample_parse (\<lambda>_. True) 0 subscribe_X_text serving) = [(0, subscribe_X)]
   \<and> sample_parse subscribe_none_text = Some subscribe_none
   \<and> client_out (client_on_message sample_parse (\<lambda>_. True) 0 subscribe_none_text serving) = [(0, nack_reply)]
   \<and> sample_parse ltp_text = Some ltp_X \<and> truthy (JStr ''X'')
   \<and> client_on_message sample_parse (\<lambda>_. True) 0 ltp_text serving = awaiting_ltp
   \<and> tasks awaiting_ltp ! 0 = AwaitLtp 0 (JStr ''X'')
   \<and> client_out awaiting_ltp = []
   \<and> client_out (ltp_on_settled 0 Rejected awaiting_ltp) = [(0, ltp_failed_reply)]
   \<and> tasks (ltp_on_settled 0 Rejected awaiting_ltp) = [Settled JUndefined]
   \<and> sample_parse subscribe_str_text = Some subscribe_str
   \<and> client_out (client_on_message sample_parse (\<lambda>_. True) 0 subscribe_str_text serving) =
       [(0, JObj [(''echo'', subscribe_str)])]"
proof -
  have a: "awaiting_ltp = client_on_message sample_parse (\<lambda>_. True) 0 ltp_text serving"
    by (simp add: awaiting_ltp_def step_def sample_platform_def serving_fields)
  have f: "tasks awaiting_ltp = [AwaitLtp 0 (JStr ''X'')]" "client_out awaiting_ltp = []"
    by (simp_all add: a serving_fields client_on_message_def sample_parse_simps ltp_X_def Let_def)
  have g: "get_prop subscribe_X ''action'' = Some (JStr ''subscribe'')"
    "get_prop subscribe_X ''symbols'' = Some (JArr [JStr ''X''])"
    "get_prop subscribe_none ''action'' = Some (JStr ''subscribe'')"
    "get_prop subscribe_none ''symbols'' = Some (JArr [])"
    "get_prop ltp_X ''action'' = Some (JStr ''ltp'')"
    "get_prop ltp_X ''symbol'' = Some (JStr ''X'')"
    "get_prop subscribe_str ''action'' = Some (JStr ''subscribe'')"
    "get_prop subscribe_str ''symbols'' = Some (JStr ''X'')"
    "get_prop subscribe_str ''symbol'' = Some JUndefined"
    by (simp_all add: subscribe_X_def subscribe_none_def ltp_X_def subscribe_str_def)
  note T = subscriber_gets_one_reply
  show ?thesis
    using
      T [of sample_parse "''hello''" "\<lambda>_. True" 0 serving]
      T [of sample_parse subscribe_X_text "\<lambda>_. True" 0 serving subscribe_X "[JStr ''X'']" 0]
      T [of sample_parse subscribe_none_text "\<lambda>_. True" 0 serving subscribe_none "[]" 0]
      T [of sample_parse ltp_text "\<lambda>_. True" 0 serving ltp_X _ _ "JStr ''X''"
            awaiting_ltp 0 JNull]
      T [of sample_parse subscribe_str_text "\<lambda>_. True" 0 serving subscribe_str _ _
            _ _ _ _ "JStr ''subscribe''" "JStr ''X''" JUndefined]
      f g a
    by (simp add: sample_parse_simps serving_fields subscribe_X_def)
qed

subsection \<open>Empty and non-array symbols\<close>

text \<open>
  Claim C9 says that a subscribe message with an empty \<^verbatim>\<open>symbols\<close> array, and likewise
  one whose \<^verbatim>\<open>symbols\<close> is not an array, gets the reply \<^verbatim>\<open>ok: false\<close> with the
  text \<^verbatim>\<open>Upstox WS not connected yet\<close>, even when the upstream socket is open. The
  handler calls \<^verbatim>\<open>forwardSubscriptionToUpstox\<close> only when
  \<^verbatim>\<open>Array.isArray(parsed.symbols)\<close> holds (line 268). What holds:
  \<^verbatim>\<open>forwardSubscriptionToUpstox\<close> returns false and changes nothing for every argument
  that is empty or not an array, whatever the state; a subscribe message with an empty array
  sends nothing upstream and gets that reply, whatever the state; a subscribe message whose
  \<^verbatim>\<open>symbols\<close> is not an array sends nothing upstream and is echoed to its sender.
\<close>

theorem empty_symbols_refused_non_array_echoed:
  "(\<not> isArray v \<or> v = JArr [] \<longrightarrow> forwardSubscriptionToUpstox v s = (False, s))
   \<and> (parse msg = Some parsed \<and> get_prop parsed ''action'' = Some (JStr ''subscribe'')
        \<and> get_prop parsed ''symbols'' = Some (JArr []) \<longrightarrow>
        client_on_message parse encodable c msg s = s\<lparr>client_out := client_out s @ [(c, nack_reply)]\<rparr>)
   \<and> (parse msg = Some parsed \<and> get_prop parsed ''action'' = Some (JStr ''subscribe'')
        \<and> get_prop parsed ''symbols'' = Some v \<and> \<not> isArray v \<longrightarrow>
        client_on_message parse encodable c msg s =
          s\<lparr>client_out := client_out s @ [(c, JObj [(''echo'', parsed)])]\<rparr>)"
proof -
  have a: "forwardSubscriptionToUpstox v s = (False, s)" if "\<not> isArray v \<or> v = JArr []"
    using that by (auto simp add: forwardSubscriptionToUpstox_def Let_def)
  have b: "client_on_message parse encodable c msg s = s\<lparr>client_out := client_out s @ [(c, nack_reply)]\<rparr>"
    if "parse msg = Some parsed" "get_prop parsed ''action'' = Some (JStr ''subscribe'')"
       "get_prop parsed ''symbols'' = Some (JArr [])"
    using that
    by (simp add: client_on_message_def forwardSubscriptionToUpstox_def Let_def client_send_def
        nack_reply_def)
  have e: "client_on_message parse encodable c msg s =
          s\<lparr>client_out := client_out s @ [(c, JObj [(''echo'', parsed)])]\<rparr>"
    if "parse msg = Some parsed" "get_prop parsed ''action'' = Some (JStr ''subscribe'')"
       "get_prop parsed ''symbols'' = Some v" "\<not> isArray v"
    using that by (simp add: client_on_message_def Let_def client_send_def)
  show ?thesis using a b e by blast
qed

text \<open>
  The subscribe message with an empty array on the serving state, upstream open, and the one
  whose symbols are a string.
\<close>

theorem empty_symbols_refused_non_array_echoed_witness:
  "sample_parse subscribe_none_text = Some subscribe_none
   \<and> get_prop subscribe_none ''action'' = Some (JStr ''subscribe'')
   \<and> get_prop subscribe_none ''symbols'' = Some (JArr [])
   \<and> upstox_open serving
   \<and> forwardSubscriptionToUpstox (JArr []) serving = (False, serving)
   \<and> forwardSubscriptionToUpstox (JStr ''X'') serving = (False, serving)
   \<and> ws_out (client_on_message sample_parse (\<lambda>_. True) 0 subscribe_none_text serving) = []
   \<and> client_out (client_on_message sample_parse (\<lambda>_. True) 0 subscribe_none_text serving) =
       [(0, nack_reply)]
   \<and> sample_parse subscribe_str_text = Some subscribe_str
   \<and> get_prop subscribe_str ''symbols'' = Some (JStr ''X'')
   \<and> client_on_message sample_parse (\<lambda>_. True) 0 subscribe_str_text serving =
       serving\<lparr>client_out := [(0, JObj [(''echo'', subscribe_str)])]\<rparr>"
proof -
  have h: "sample_parse subscribe_none_text = Some subscribe_none"
    "get_prop subscribe_none ''action'' = Some (JStr ''subscribe'')"
    "get_prop subscribe_none ''symbols'' = Some (JArr [])"
    by (simp_all add: sample_parse_simps subscribe_none_def)
  have k: "sample_parse subscribe_str_text = Some subscribe_str"
    "get_prop subscribe_str ''action'' = Some (JStr ''subscribe'')"
    "get_prop subscribe_str ''symbols'' = Some (JStr ''X'')"
    by (simp_all add: sample_parse_simps subscribe_str_def)
  show ?thesis
    using empty_symbols_refused_non_array_echoed
        [of "JArr []" serving sample_parse subscribe_none_text subscribe_none "\<lambda>_. True" 0]
      empty_symbols_refused_non_array_echoed
        [of "JStr ''X''" serving sample_parse subscribe_str_text subscribe_str "\<lambda>_. True" 0] h k
    by (simp add: serving_fields)
qed

text \<open>
  The subscribe message whose \<^verbatim>\<open>symbols\<close> is the string X, upstream open: the reply is
  the echo, not the acknowledgement with \<^verbatim>\<open>ok: false\<close>.
\<close>

theorem non_array_symbols_echoed_not_refused:
  "client_out (client_on_message sample_parse (\<lambda>_. True) 0 subscribe_str_text serving) =
     [(0, JObj [(''echo'', subscribe_str)])]
   \<and> client_out (client_on_message sample_parse (\<lambda>_. True) 0 subscribe_str_text serving) \<noteq>
       [(0, nack_reply)]
   \<and> ws_out (client_on_message sample_parse (\<lambda>_. True) 0 subscribe_str_text serving) = []"
  by (simp add: client_on_message_def sample_parse_simps subscribe_str_def serving_fields
      client_send_def nack_reply_def Let_def)

subsection \<open>Saving and loading\<close>

text \<open>
  Claim C10 says that after every \<^verbatim>\<open>saveTokens\<close> call the table holds exactly one row,
  the credential just saved, with \<^verbatim>\<open>expires_at\<close> equal to the clock plus
  \<^verbatim>\<open>expires_in\<close>, and that \<^verbatim>\<open>loadTokens\<close> then returns it. \<^verbatim>\<open>saveTokens\<close> awaits
  its DELETE and then its INSERT, outside any transaction; the event loop runs other
  callbacks in between, either statement may be rejected, and the sum is one of doubles.
  What holds, for a call whose two statements both succeed and during which no other
  statement settles on the table, the clock and \<^verbatim>\<open>expires_in\<close> being JavaScript numbers
  whose sum does not overflow: whatever the table held, the call returns and the table holds
  exactly one row, with id 1, the access token given, the refresh token given or NULL when
  it is missing or empty, and \<^verbatim>\<open>expires_at\<close> equal to the JavaScript sum of the clock
  and \<^verbatim>\<open>expires_in\<close>, 3600 standing for an \<^verbatim>\<open>expires_in\<close> that is missing or 0;
  that sum is the exact sum when its magnitude is below \<^verbatim>\<open>2^53\<close>; and
  \<^verbatim>\<open>loadTokens\<close> on that table returns that row. In the event loop, a suspended
  \<^verbatim>\<open>saveTokens\<close> whose DELETE and INSERT are fulfilled one after the other leaves that one
  row.
\<close>

theorem saveTokens_alone_one_row_loadTokens_returns_it:
  "js_operands now (case e_in of None \<Rightarrow> 3600 | Some n \<Rightarrow> if n = 0 then 3600 else n) \<Longrightarrow>
   (let e = (case e_in of None \<Rightarrow> 3600 | Some n \<Rightarrow> if n = 0 then 3600 else n);
        row = \<lparr>row_id = 1, access_token = a,
                refresh_token = (case r of None \<Rightarrow> None | Some x \<Rightarrow> if x = [] then None else Some x),
                expires_at = round_to_double (now + e)\<rparr>
    in saveTokens now a r e_in True True tbl = Done [row]
       \<and> loadTokens (state_of (saveTokens now a r e_in True True tbl)) = Some row
       \<and> (\<bar>now + e\<bar> < 2 ^ 53 \<longrightarrow> expires_at row = now + e))
   \<and> (i < length (tasks s) \<and> \<not> exited s \<and> tasks s ! i = AwaitDelete c a' r' e' \<longrightarrow>
        db (run pf [DbRunSettled i True, DbRunSettled i True] s) =
          [\<lparr>row_id = 1, access_token = a', refresh_token = r', expires_at = e'\<rparr>])"
proof -
  let ?e = "case e_in of None \<Rightarrow> 3600 | Some n \<Rightarrow> if n = 0 then 3600 else n"
  let ?row = "\<lparr>row_id = 1, access_token = a,
                refresh_token = (case r of None \<Rightarrow> None | Some x \<Rightarrow> if x = [] then None else Some x),
                expires_at = round_to_double (now + ?e)\<rparr>"
  have e: "num_or e_in 3600 = ?e" by (cases e_in) simp_all
  have pure: "saveTokens now a r e_in True True tbl = Done [?row]"
    by (simp add: saveTokens_def insert_tokens_def delete_tokens_def next_row_id_def
        bound_refresh_token_def save_expires_at_def js_add_def e Let_def)
  have load: "loadTokens (state_of (saveTokens now a r e_in True True tbl)) = Some ?row"
    unfolding pure by (simp add: loadTokens_def)
  have exact: "\<bar>now + ?e\<bar> < 2 ^ 53 \<longrightarrow> expires_at ?row = now + ?e"
    by (simp add: round_to_double_exact)
  have loop: "db (run pf [DbRunSettled i True, DbRunSettled i True] s) =
          [\<lparr>row_id = 1, access_token = a', refresh_token = r', expires_at = e'\<rparr>]"
    if h: "i < length (tasks s)" "\<not> exited s" "tasks s ! i = AwaitDelete c a' r' e'"
  proof -
    let ?s1 = "s\<lparr>db := delete_tokens (db s), tasks := (tasks s)[i := AwaitInsert c a' r' e']\<rparr>"
    have 1: "step pf (DbRunSettled i True) s = ?s1"
      using h by (simp add: step_def db_run_settled_def save_on_delete_def)
    have 2: "db (step pf (DbRunSettled i True) ?s1) = insert_tokens a' r' e' (delete_tokens (db s))"
      using h after_save_opens_at_most_one(1)
                [of "url_accepted pf" i c "?s1\<lparr>db := insert_tokens a' r' e' (db ?s1)\<rparr>"]
              after_save_opens_at_most_one(2)
                [of "url_accepted pf" i "?s1\<lparr>db := insert_tokens a' r' e' (db ?s1)\<rparr>"]
      by (cases "c = AuthCallback")
         (simp_all add: step_def db_run_settled_def save_on_insert_def Let_def)
    show ?thesis
      using 1 2 by (simp add: insert_tokens_def delete_tokens_def next_row_id_def)
  qed
  show ?thesis
    using pure load exact loop unfolding Let_def by blast
qed

text \<open>
  A credential without refresh token and lifetime, saved at second 1000 over two older rows;
  and the save of a periodic refresh, suspended at its DELETE, run to its end.
\<close>

theorem saveTokens_alone_one_row_loadTokens_returns_it_witness:
  "js_operands 1000 3600
   \<and> saveTokens 1000 (Some ''B'') None None True True
       [saved_row, \<lparr>row_id = 8, access_token = Some ''C'', refresh_token = None, expires_at = 6\<rparr>] =
     Done [\<lparr>row_id = 1, access_token = Some ''B'', refresh_token = None, expires_at = 4600\<rparr>]
   \<and> loadTokens (state_of (saveTokens 1000 (Some ''B'') None None True True
       [saved_row, \<lparr>row_id = 8, access_token = Some ''C'', refresh_token = None, expires_at = 6\<rparr>])) =
     Some \<lparr>row_id = 1, access_token = Some ''B'', refresh_token = None, expires_at = 4600\<rparr>
   \<and> 0 < length (tasks awaiting_delete) \<and> \<not> exited awaiting_delete
   \<and> tasks awaiting_delete ! 0 = AwaitDelete TimerRefresh (Some ''B'') (Some ''R'') 8501
   \<and> db awaiting_delete = [saved_row]
   \<and> db (run sample_platform [DbRunSettled 0 True, DbRunSettled 0 True] awaiting_delete) =
       [\<lparr>row_id = 1, access_token = Some ''B'', refresh_token = Some ''R'', expires_at = 8501\<rparr>]"
proof -
  have j: "js_operands 1000 3600"
    by (simp add: js_operands_def round_to_double_exact)
  have d: "round_to_double 4600 = 4600"
    by (simp add: round_to_double_exact)
  have f: "tasks awaiting_delete = [AwaitDelete TimerRefresh (Some ''B'') (Some ''R'') 8501]"
    "\<not> exited awaiting_delete" "db awaiting_delete = [saved_row]"
    by (simp_all add: awaiting_delete_def boot_defs io_defs flow_defs Let_def)
  show ?thesis
    using saveTokens_alone_one_row_loadTokens_returns_it
      [of 1000 None "Some ''B''" None
        "[saved_row, \<lparr>row_id = 8, access_token = Some ''C'', refresh_token = None, expires_at = 6\<rparr>]"
        0 awaiting_delete TimerRefresh "Some ''B''" "Some ''R''" 8501 sample_platform] j d f
    by (simp add: Let_def loadTokens_def)
qed

text \<open>
  Two refreshes in flight whose saves overlap: both DELETEs settle, then both INSERTs. Both
  calls of \<^verbatim>\<open>saveTokens\<close> have returned, the table holds two rows, and
  \<^verbatim>\<open>loadTokens\<close> returns the row of the first save, not the credential saved last, which
  is the one in memory. A call alone on the table whose INSERT is rejected throws and leaves
  no row. And at second 1001 with \<^verbatim>\<open>expires_in\<close> equal to \<^verbatim>\<open>2^53\<close> the row holds
  9007199254741992, one less than the sum of the two.
\<close>

theorem overlapping_saves_leave_two_rows:
  "tasks overlapping_saves = [Settled JUndefined, Settled JUndefined]
   \<and> map access_token (db overlapping_saves) = [Some ''B'', Some ''C'']
   \<and> upstoxAccessToken overlapping_saves = ''C''
   \<and> map_option access_token (loadTokens (db overlapping_saves)) = Some (Some ''B'')
   \<and> insert_rejected_alone = Thrown []
   \<and> map expires_at (state_of large_expiry_save) = [9007199254741992]
   \<and> 1001 + 9007199254740992 = (9007199254741993 :: int)"
proof -
  have u: "ulp 9007199254741993 = 2"
    by (subst ulp.simps) (simp add: ulp_small)
  have r: "round_to_double 9007199254741993 = 9007199254741992"
    by (simp add: round_to_double_def Let_def u)
  have o: "tasks overlapping_saves = [Settled JUndefined, Settled JUndefined]"
    "map access_token (db overlapping_saves) = [Some ''B'', Some ''C'']"
    "upstoxAccessToken overlapping_saves = ''C''"
    "map_option access_token (loadTokens (db overlapping_saves)) = Some (Some ''B'')"
    by (simp_all add: overlapping_saves_def newer_data_def boot_defs io_defs flow_defs Let_def)
  have i: "insert_rejected_alone = Thrown []"
    by (simp add: insert_rejected_alone_def saveTokens_def delete_tokens_def)
  have l: "map expires_at (state_of large_expiry_save) = [9007199254741992]"
    by (simp add: large_expiry_save_def saveTokens_def delete_tokens_def insert_tokens_def
        save_expires_at_def js_add_def r Let_def)
  show ?thesis using o i l by simp
qed

end
